theory Spec2Isabelle
  imports Main "HOL-Library.Word"
begin

section \<open>Byte strings and the Go string helpers the code calls\<close>

text \<open>
  A Go \<open>string\<close> is a sequence of bytes; it is modelled as \<open>string\<close> (a list of 8-bit
  \<open>char\<close>).  The helpers below are the functions of packages \<open>strings\<close> and
  \<open>path/filepath\<close> that the repository calls.
\<close>

definition lower_char :: "char \<Rightarrow> char" where
  "lower_char c =
     (case map_of (zip ''ABCDEFGHIJKLMNOPQRSTUVWXYZ'' ''abcdefghijklmnopqrstuvwxyz'') c of
        None \<Rightarrow> c
      | Some l \<Rightarrow> l)"

text \<open>
  Lower-casing of the ASCII letters A to Z, every other byte kept.  (This is not
  \<open>strings.ToLower\<close>, which also lower-cases the letters beyond ASCII; the two agree
  on ASCII strings.)
\<close>

definition ascii_ToLower :: "string \<Rightarrow> string" where
  "ascii_ToLower s = map lower_char s"

text \<open>\<open>strings.HasPrefix\<close>.\<close>

definition strings_HasPrefix :: "string \<Rightarrow> string \<Rightarrow> bool" where
  "strings_HasPrefix s p = (take (length p) s = p)"

text \<open>
  \<open>filepath.Base\<close> on a Unix path: the empty path gives \<open>.\<close>, trailing slashes are
  stripped, the last element is returned, and a path of slashes only gives \<open>/\<close>.
\<close>

definition strip_trailing_slashes :: "string \<Rightarrow> string" where
  "strip_trailing_slashes p = rev (dropWhile (\<lambda>c. c = CHR ''/'') (rev p))"

definition last_element :: "string \<Rightarrow> string" where
  "last_element p = rev (takeWhile (\<lambda>c. c \<noteq> CHR ''/'') (rev p))"

definition filepath_Base :: "string \<Rightarrow> string" where
  "filepath_Base path =
     (if path = [] then ''.''
      else let p = last_element (strip_trailing_slashes path)
           in if p = [] then ''/'' else p)"

section \<open>File matching (package filematch)\<close>

text \<open>
  A compiled \<open>glob.Glob\<close> is used through its \<open>Match\<close> method only, so it is modelled by
  that predicate.  The glob compiler belongs to an external library; \<open>New\<close> and
  \<open>Add\<close> take it as the parameter \<open>compile\<close>, which returns the compile error
  (\<open>Inl\<close>) or the compiled glob.  \<open>strings.ToLower\<close> belongs to the standard library
  and lower-cases every Unicode letter; it is the parameter \<open>ToLower\<close> of every
  function that calls it, directly or not.  The two \<open>map[string]bool\<close> fields only
  ever store \<open>true\<close>, under the normalised key: they are sets of keys.
\<close>

type_synonym Glob = "string \<Rightarrow> bool"

record Matcher =
  extensions :: "string set"
  patterns :: "Glob list"
  languageIDs :: "string set"

definition normalize_ext :: "(string \<Rightarrow> string) \<Rightarrow> string \<Rightarrow> string" where
  "normalize_ext ToLower ext =
     (let normalized = ToLower ext
      in if \<not> strings_HasPrefix normalized ''.'' then ''.'' @ normalized else normalized)"

fun compile_all :: "(string \<Rightarrow> string + Glob) \<Rightarrow> string list \<Rightarrow> Glob list \<Rightarrow> string + Glob list" where
  "compile_all compile [] acc = Inr acc"
| "compile_all compile (pattern # rest) acc =
     (case compile pattern of
        Inl err \<Rightarrow> Inl err
      | Inr g \<Rightarrow> compile_all compile rest (acc @ [g]))"

definition New :: "(string \<Rightarrow> string + Glob) \<Rightarrow> (string \<Rightarrow> string) \<Rightarrow> string list \<Rightarrow> string list
    \<Rightarrow> string list \<Rightarrow> string + Matcher" where
  "New compile ToLower exts pats langs =
     (case compile_all compile pats [] of
        Inl err \<Rightarrow> Inl err
      | Inr gs \<Rightarrow>
          Inr \<lparr>extensions = set (map (normalize_ext ToLower) exts),
               patterns = gs,
               languageIDs = set (map ToLower langs)\<rparr>)"

definition MatchesExtension :: "(string \<Rightarrow> string) \<Rightarrow> Matcher \<Rightarrow> string \<Rightarrow> bool" where
  "MatchesExtension ToLower m ext =
     (if extensions m = {} then False else normalize_ext ToLower ext \<in> extensions m)"

fun any_glob :: "Glob list \<Rightarrow> string \<Rightarrow> string \<Rightarrow> bool" where
  "any_glob [] filename path = False"
| "any_glob (g # gs) filename path =
     (if g filename \<or> g path then True else any_glob gs filename path)"

definition MatchesPattern :: "Matcher \<Rightarrow> string \<Rightarrow> bool" where
  "MatchesPattern m path =
     (if patterns m = [] then False else any_glob (patterns m) (filepath_Base path) path)"

definition MatchesLanguageID :: "(string \<Rightarrow> string) \<Rightarrow> Matcher \<Rightarrow> string \<Rightarrow> bool" where
  "MatchesLanguageID ToLower m langID =
     (if languageIDs m = {} then False else ToLower langID \<in> languageIDs m)"

definition Matches :: "(string \<Rightarrow> string) \<Rightarrow> Matcher \<Rightarrow> string \<Rightarrow> string \<Rightarrow> string \<Rightarrow> bool" where
  "Matches ToLower m path ext languageID =
     (if languageID \<noteq> [] \<and> MatchesLanguageID ToLower m languageID then True
      else if ext \<noteq> [] \<and> MatchesExtension ToLower m ext then True
      else if path \<noteq> [] \<and> MatchesPattern m path then True
      else False)"

record namedMatcher =
  name :: string
  matcher :: Matcher

record MatcherSet =
  matchers :: "namedMatcher list"

definition NewMatcherSet :: MatcherSet where
  "NewMatcherSet = \<lparr>matchers = []\<rparr>"

text \<open>\<open>Add\<close> returns the compile error and leaves the set as it was, or appends.\<close>

definition Add :: "(string \<Rightarrow> string + Glob) \<Rightarrow> (string \<Rightarrow> string) \<Rightarrow> MatcherSet \<Rightarrow> string
    \<Rightarrow> string list \<Rightarrow> string list \<Rightarrow> string list \<Rightarrow> string option \<times> MatcherSet" where
  "Add compile ToLower ms nm exts pats langs =
     (case New compile ToLower exts pats langs of
        Inl err \<Rightarrow> (Some err, ms)
      | Inr m \<Rightarrow> (None, ms\<lparr>matchers := matchers ms @ [\<lparr>name = nm, matcher = m\<rparr>]\<rparr>))"

fun Match_loop :: "(string \<Rightarrow> string) \<Rightarrow> namedMatcher list \<Rightarrow> string \<Rightarrow> string \<Rightarrow> string \<Rightarrow> string" where
  "Match_loop ToLower [] path ext languageID = []"
| "Match_loop ToLower (nm # rest) path ext languageID =
     (if Matches ToLower (matcher nm) path ext languageID then name nm
      else Match_loop ToLower rest path ext languageID)"

definition Match :: "(string \<Rightarrow> string) \<Rightarrow> MatcherSet \<Rightarrow> string \<Rightarrow> string \<Rightarrow> string \<Rightarrow> string" where
  "Match ToLower ms path ext languageID = Match_loop ToLower (matchers ms) path ext languageID"

text \<open>
  The acceptance condition in the words of the specification: the language id is
  non-empty and its lowercase form is in the set of language ids, or the extension is
  non-empty and its lowercased, dot-prefixed form is in the set of extensions, or the
  path is non-empty and some glob matches its base name or the path itself.
\<close>

definition accepts :: "(string \<Rightarrow> string) \<Rightarrow> Matcher \<Rightarrow> string \<Rightarrow> string \<Rightarrow> string \<Rightarrow> bool" where
  "accepts lowercase m p e l =
     ((l \<noteq> [] \<and> lowercase l \<in> languageIDs m)
      \<or> (e \<noteq> [] \<and> (if take 1 (lowercase e) = ''.'' then lowercase e else ''.'' @ lowercase e)
                    \<in> extensions m)
      \<or> (p \<noteq> [] \<and> list_ex (\<lambda>g. g (filepath_Base p) \<or> g p) (patterns m)))"

section \<open>Capability aggregation (package capabilities)\<close>

text \<open>
  The fields of \<open>lsp.ServerCapabilities\<close> are those the composite literal of
  \<open>defaultCapabilities\<close> sets.  \<open>LoadCache\<close> (the reader of the on-disk capability
  cache) and \<open>lsp.MergeCapabilities\<close> are declared outside the files at hand and are
  parameters of \<open>AggregateCapabilities\<close>.
\<close>

record CompletionOptions =
  TriggerCharacters :: "string list"

record ServerCapabilities =
  TextDocumentSync :: int
  HoverProvider :: bool
  CompletionProvider :: "CompletionOptions option"
  DefinitionProvider :: bool
  TypeDefinitionProvider :: bool
  ImplementationProvider :: bool
  ReferencesProvider :: bool
  DocumentSymbolProvider :: bool
  CodeActionProvider :: bool
  DocumentFormattingProvider :: bool
  DocumentRangeFormattingProvider :: bool
  RenameProvider :: bool
  FoldingRangeProvider :: bool
  SelectionRangeProvider :: bool
  WorkspaceSymbolProvider :: bool

record CachedCapabilities =
  Capabilities :: ServerCapabilities

definition defaultCapabilities :: ServerCapabilities where
  "defaultCapabilities =
     \<lparr>TextDocumentSync = 1,
      HoverProvider = True,
      CompletionProvider = Some \<lparr>TriggerCharacters = [''.'']\<rparr>,
      DefinitionProvider = True,
      TypeDefinitionProvider = True,
      ImplementationProvider = True,
      ReferencesProvider = True,
      DocumentSymbolProvider = True,
      CodeActionProvider = True,
      DocumentFormattingProvider = True,
      DocumentRangeFormattingProvider = True,
      RenameProvider = True,
      FoldingRangeProvider = True,
      SelectionRangeProvider = True,
      WorkspaceSymbolProvider = True\<rparr>"

fun collect_caps :: "(string \<Rightarrow> string + CachedCapabilities) \<Rightarrow> string list \<Rightarrow> ServerCapabilities list
    \<Rightarrow> ServerCapabilities list" where
  "collect_caps LoadCache [] caps = caps"
| "collect_caps LoadCache (nm # rest) caps =
     (case LoadCache nm of
        Inl err \<Rightarrow> collect_caps LoadCache rest caps
      | Inr cache \<Rightarrow> collect_caps LoadCache rest (caps @ [Capabilities cache]))"

definition AggregateCapabilities ::
  "(string \<Rightarrow> string + CachedCapabilities) \<Rightarrow> (ServerCapabilities list \<Rightarrow> ServerCapabilities)
    \<Rightarrow> string list \<Rightarrow> ServerCapabilities" where
  "AggregateCapabilities LoadCache MergeCapabilities names =
     (let caps = collect_caps LoadCache names []
      in if length caps = 0 then defaultCapabilities else MergeCapabilities caps)"

section \<open>JSON-RPC messages (internal/jsonrpc/message.go)\<close>

text \<open>
  \<open>int64\<close> and \<open>int\<close> are 64-bit words read as signed numbers.  An \<open>ID\<close> is the
  source's struct of two pointers; a \<open>json.RawMessage\<close> is a byte string, empty when
  the slice is nil or has length 0.  A Go \<open>error\<close> is a plain error with its text or a
  \<open>*jsonrpc.Error\<close>.
\<close>

type_synonym int64 = "64 word"

definition digit_char :: "nat \<Rightarrow> char" where
  "digit_char d = ''0123456789'' ! d"

function digits :: "int \<Rightarrow> string" where
  "digits n =
     (if n < 10 then [digit_char (nat n)]
      else digits (n div 10) @ [digit_char (nat (n mod 10))])"
  by pat_completeness auto
termination
  by (relation "measure nat") auto

declare digits.simps [simp del]

text \<open>The verb \<open>%d\<close> of package \<open>fmt\<close>, which is also how \<open>json.Marshal\<close> writes an integer.\<close>

definition fmt_d :: "int \<Rightarrow> string" where
  "fmt_d i = (if i < 0 then ''-'' @ digits (- i) else digits i)"

record ID =
  num :: "int64 option"
  str :: "string option"

definition NewNumberID :: "int64 \<Rightarrow> ID" where
  "NewNumberID n = \<lparr>num = Some n, str = None\<rparr>"

definition NewStringID :: "string \<Rightarrow> ID" where
  "NewStringID s = \<lparr>num = None, str = Some s\<rparr>"

definition IsNull :: "ID \<Rightarrow> bool" where
  "IsNull i = (num i = None \<and> str i = None)"

definition ID_String :: "ID \<Rightarrow> string" where
  "ID_String i =
     (case num i of
        Some n \<Rightarrow> fmt_d (sint n)
      | None \<Rightarrow> (case str i of Some s \<Rightarrow> s | None \<Rightarrow> ''<null>''))"

record Error =
  Code :: int64
  Message :: string
  Data :: string

record Message =
  JSONRPC :: string
  ID :: "ID option"
  Method :: string
  Params :: string
  Result :: string
  Error :: "Error option"

datatype go_error = errorString string | rpcError Error

definition Error_Error :: "Error \<Rightarrow> string" where
  "Error_Error e = ''jsonrpc error '' @ fmt_d (sint (Code e)) @ '': '' @ Message e"

definition error_text :: "go_error \<Rightarrow> string" where
  "error_text err = (case err of errorString s \<Rightarrow> s | rpcError e \<Rightarrow> Error_Error e)"

text \<open>\<open>fmt.Errorf("prefix: %w", err)\<close>.\<close>

definition wrap_error :: "string \<Rightarrow> go_error \<Rightarrow> go_error" where
  "wrap_error prefix err = errorString (prefix @ '': '' @ error_text err)"

definition Version :: string where
  "Version = ''2.0''"

definition ParseError :: int64 where "ParseError = - 32700"
definition InvalidRequest :: int64 where "InvalidRequest = - 32600"
definition MethodNotFound :: int64 where "MethodNotFound = - 32601"
definition InvalidParams :: int64 where "InvalidParams = - 32602"
definition InternalError :: int64 where "InternalError = - 32603"
definition ServerNotInitialized :: int64 where "ServerNotInitialized = - 32002"
definition RequestCancelled :: int64 where "RequestCancelled = - 32800"
definition ContentModified :: int64 where "ContentModified = - 32801"

definition IsRequest :: "Message \<Rightarrow> bool" where
  "IsRequest m = (ID m \<noteq> None \<and> Method m \<noteq> [])"

definition IsNotification :: "Message \<Rightarrow> bool" where
  "IsNotification m = (ID m = None \<and> Method m \<noteq> [])"

definition IsResponse :: "Message \<Rightarrow> bool" where
  "IsResponse m = (ID m \<noteq> None \<and> Method m = [])"

text \<open>
  A value of type \<open>any\<close> handed to a constructor is seen only through \<open>json.Marshal\<close>:
  it is nil, or marshals to some bytes, or makes \<open>json.Marshal\<close> fail.
\<close>

datatype any = nil | marshals string | unmarshalable go_error

definition marshal_any :: "string \<Rightarrow> any \<Rightarrow> go_error + string" where
  "marshal_any what v =
     (case v of
        nil \<Rightarrow> Inr []
      | marshals raw \<Rightarrow> Inr raw
      | unmarshalable err \<Rightarrow> Inl (wrap_error what err))"

definition NewRequest :: "ID \<Rightarrow> string \<Rightarrow> any \<Rightarrow> go_error + Message" where
  "NewRequest i method params =
     (case marshal_any ''marshaling params'' params of
        Inl err \<Rightarrow> Inl err
      | Inr rawParams \<Rightarrow>
          Inr \<lparr>JSONRPC = Version, ID = Some i, Method = method, Params = rawParams,
               Result = [], Error = None\<rparr>)"

definition NewNotification :: "string \<Rightarrow> any \<Rightarrow> go_error + Message" where
  "NewNotification method params =
     (case marshal_any ''marshaling params'' params of
        Inl err \<Rightarrow> Inl err
      | Inr rawParams \<Rightarrow>
          Inr \<lparr>JSONRPC = Version, ID = None, Method = method, Params = rawParams,
               Result = [], Error = None\<rparr>)"

definition NewResponse :: "ID \<Rightarrow> any \<Rightarrow> go_error + Message" where
  "NewResponse i result =
     (case marshal_any ''marshaling result'' result of
        Inl err \<Rightarrow> Inl err
      | Inr rawResult \<Rightarrow>
          Inr \<lparr>JSONRPC = Version, ID = Some i, Method = [], Params = [],
               Result = rawResult, Error = None\<rparr>)"

definition NewErrorResponse :: "ID \<Rightarrow> int64 \<Rightarrow> string \<Rightarrow> any \<Rightarrow> go_error + Message" where
  "NewErrorResponse i code message data =
     (case marshal_any ''marshaling error data'' data of
        Inl err \<Rightarrow> Inl err
      | Inr rawData \<Rightarrow>
          Inr \<lparr>JSONRPC = Version, ID = Some i, Method = [], Params = [], Result = [],
               Error = Some \<lparr>Code = code, Message = message, Data = rawData\<rparr>\<rparr>)"

section \<open>JSON text as package encoding/json reads and writes it\<close>

text \<open>
  \<open>json.Marshal\<close> and \<open>json.Unmarshal\<close> belong to the Go standard library.  They are
  modelled here as far as the type \<open>Message\<close> exercises them, after the library's
  scanner: a state machine that is stepped once per byte, with a stack of the open
  objects and arrays (at most 10000 deep).
\<close>

definition byte :: "char \<Rightarrow> nat" where
  "byte c = of_char c"

definition isSpace :: "char \<Rightarrow> bool" where
  "isSpace c = (c = CHR '' '' \<or> c = CHR 0x09 \<or> c = CHR 0x0D \<or> c = CHR 0x0A)"

definition isDigit :: "char \<Rightarrow> bool" where
  "isDigit c = (48 \<le> byte c \<and> byte c \<le> 57)"

definition isDigit19 :: "char \<Rightarrow> bool" where
  "isDigit19 c = (49 \<le> byte c \<and> byte c \<le> 57)"

definition isHex :: "char \<Rightarrow> bool" where
  "isHex c = (isDigit c \<or> (97 \<le> byte c \<and> byte c \<le> 102) \<or> (65 \<le> byte c \<and> byte c \<le> 70))"

datatype scan_state =
    stateBeginValue | stateBeginValueOrEmpty | stateBeginStringOrEmpty | stateBeginString
  | stateEndValue | stateEndTop
  | stateInString | stateInStringEsc | stateInStringEscU nat
  | stateNeg | state0 | state1 | stateDot | stateDot0 | stateE | stateESign | stateE0
  | stateLit string
  | stateError

datatype parse_state = parseObjectKey | parseObjectValue | parseArrayValue

datatype scan_code =
    scanContinue | scanBeginLiteral | scanBeginObject | scanObjectKey | scanObjectValue
  | scanEndObject | scanBeginArray | scanArrayValue | scanEndArray
  | scanSkipSpace | scanEnd | scanError

text \<open>
  The scanner: its current step function, its parse stack (top first) and the flag
  \<open>endTop\<close>.  The scanner's error is set exactly when its step is \<open>stateError\<close>.  In
  \<open>stateInStringEscU n\<close>, \<open>n\<close> hexadecimal digits are still expected; in
  \<open>stateLit r\<close>, the rest \<open>r\<close> of \<open>true\<close>, \<open>false\<close> or \<open>null\<close>.
\<close>

record scanner =
  step :: scan_state
  parseState :: "parse_state list"
  endTop :: bool

definition newScanner :: scanner where
  "newScanner = \<lparr>step = stateBeginValue, parseState = [], endTop = False\<rparr>"

definition maxNestingDepth :: nat where
  "maxNestingDepth = 10000"

definition scan_error :: "scanner \<Rightarrow> scan_code \<times> scanner" where
  "scan_error s = (scanError, s\<lparr>step := stateError\<rparr>)"

definition pushParseState :: "scanner \<Rightarrow> parse_state \<Rightarrow> scan_code \<Rightarrow> scan_code \<times> scanner" where
  "pushParseState s newParseState successState =
     (let s' = s\<lparr>parseState := newParseState # parseState s\<rparr>
      in if length (parseState s') \<le> maxNestingDepth then (successState, s') else scan_error s')"

definition popParseState :: "scanner \<Rightarrow> scanner" where
  "popParseState s =
     (let ps = tl (parseState s)
      in if ps = [] then s\<lparr>parseState := ps, step := stateEndTop, endTop := True\<rparr>
         else s\<lparr>parseState := ps, step := stateEndValue\<rparr>)"

definition stateEndTop_step :: "scanner \<Rightarrow> char \<Rightarrow> scan_code \<times> scanner" where
  "stateEndTop_step s c = (if \<not> isSpace c then (scanEnd, s\<lparr>step := stateError\<rparr>) else (scanEnd, s))"

definition stateEndValue_step :: "scanner \<Rightarrow> char \<Rightarrow> scan_code \<times> scanner" where
  "stateEndValue_step s c =
     (case parseState s of
        [] \<Rightarrow> stateEndTop_step (s\<lparr>step := stateEndTop, endTop := True\<rparr>) c
      | ps # rest \<Rightarrow>
          if isSpace c then (scanSkipSpace, s\<lparr>step := stateEndValue\<rparr>)
          else (case ps of
                  parseObjectKey \<Rightarrow>
                    if c = CHR '':'' then
                      (scanObjectKey, s\<lparr>parseState := parseObjectValue # rest, step := stateBeginValue\<rparr>)
                    else scan_error s
                | parseObjectValue \<Rightarrow>
                    if c = CHR '','' then
                      (scanObjectValue, s\<lparr>parseState := parseObjectKey # rest, step := stateBeginString\<rparr>)
                    else if c = CHR ''}'' then (scanEndObject, popParseState s)
                    else scan_error s
                | parseArrayValue \<Rightarrow>
                    if c = CHR '','' then (scanArrayValue, s\<lparr>step := stateBeginValue\<rparr>)
                    else if c = CHR '']'' then (scanEndArray, popParseState s)
                    else scan_error s))"

definition stateBeginValue_step :: "scanner \<Rightarrow> char \<Rightarrow> scan_code \<times> scanner" where
  "stateBeginValue_step s c =
     (if isSpace c then (scanSkipSpace, s)
      else if c = CHR ''{'' then
        pushParseState (s\<lparr>step := stateBeginStringOrEmpty\<rparr>) parseObjectKey scanBeginObject
      else if c = CHR ''['' then
        pushParseState (s\<lparr>step := stateBeginValueOrEmpty\<rparr>) parseArrayValue scanBeginArray
      else if c = CHR 0x22 then (scanBeginLiteral, s\<lparr>step := stateInString\<rparr>)
      else if c = CHR ''-'' then (scanBeginLiteral, s\<lparr>step := stateNeg\<rparr>)
      else if c = CHR ''0'' then (scanBeginLiteral, s\<lparr>step := state0\<rparr>)
      else if c = CHR ''t'' then (scanBeginLiteral, s\<lparr>step := stateLit ''rue''\<rparr>)
      else if c = CHR ''f'' then (scanBeginLiteral, s\<lparr>step := stateLit ''alse''\<rparr>)
      else if c = CHR ''n'' then (scanBeginLiteral, s\<lparr>step := stateLit ''ull''\<rparr>)
      else if isDigit19 c then (scanBeginLiteral, s\<lparr>step := state1\<rparr>)
      else scan_error s)"

definition stateBeginString_step :: "scanner \<Rightarrow> char \<Rightarrow> scan_code \<times> scanner" where
  "stateBeginString_step s c =
     (if isSpace c then (scanSkipSpace, s)
      else if c = CHR 0x22 then (scanBeginLiteral, s\<lparr>step := stateInString\<rparr>)
      else scan_error s)"

definition state0_step :: "scanner \<Rightarrow> char \<Rightarrow> scan_code \<times> scanner" where
  "state0_step s c =
     (if c = CHR ''.'' then (scanContinue, s\<lparr>step := stateDot\<rparr>)
      else if c = CHR ''e'' \<or> c = CHR ''E'' then (scanContinue, s\<lparr>step := stateE\<rparr>)
      else stateEndValue_step s c)"

definition stateESign_step :: "scanner \<Rightarrow> char \<Rightarrow> scan_code \<times> scanner" where
  "stateESign_step s c =
     (if isDigit c then (scanContinue, s\<lparr>step := stateE0\<rparr>) else scan_error s)"

definition scan_step :: "scanner \<Rightarrow> char \<Rightarrow> scan_code \<times> scanner" where
  "scan_step s c =
     (case step s of
        stateBeginValue \<Rightarrow> stateBeginValue_step s c
      | stateBeginValueOrEmpty \<Rightarrow>
          if isSpace c then (scanSkipSpace, s)
          else if c = CHR '']'' then stateEndValue_step s c
          else stateBeginValue_step s c
      | stateBeginStringOrEmpty \<Rightarrow>
          if isSpace c then (scanSkipSpace, s)
          else if c = CHR ''}'' then
            stateEndValue_step (s\<lparr>parseState := parseObjectValue # tl (parseState s)\<rparr>) c
          else stateBeginString_step s c
      | stateBeginString \<Rightarrow> stateBeginString_step s c
      | stateEndValue \<Rightarrow> stateEndValue_step s c
      | stateEndTop \<Rightarrow> stateEndTop_step s c
      | stateInString \<Rightarrow>
          if c = CHR 0x22 then (scanContinue, s\<lparr>step := stateEndValue\<rparr>)
          else if c = CHR 0x5C then (scanContinue, s\<lparr>step := stateInStringEsc\<rparr>)
          else if byte c < 32 then scan_error s
          else (scanContinue, s)
      | stateInStringEsc \<Rightarrow>
          if c \<in> set ''bfnrt/'' \<or> c = CHR 0x5C \<or> c = CHR 0x22 then
            (scanContinue, s\<lparr>step := stateInString\<rparr>)
          else if c = CHR ''u'' then (scanContinue, s\<lparr>step := stateInStringEscU 4\<rparr>)
          else scan_error s
      | stateInStringEscU n \<Rightarrow>
          if isHex c then
            (scanContinue, s\<lparr>step := (if n \<le> 1 then stateInString else stateInStringEscU (n - 1))\<rparr>)
          else scan_error s
      | stateNeg \<Rightarrow>
          if c = CHR ''0'' then (scanContinue, s\<lparr>step := state0\<rparr>)
          else if isDigit19 c then (scanContinue, s\<lparr>step := state1\<rparr>)
          else scan_error s
      | state1 \<Rightarrow> if isDigit c then (scanContinue, s\<lparr>step := state1\<rparr>) else state0_step s c
      | state0 \<Rightarrow> state0_step s c
      | stateDot \<Rightarrow> if isDigit c then (scanContinue, s\<lparr>step := stateDot0\<rparr>) else scan_error s
      | stateDot0 \<Rightarrow>
          if isDigit c then (scanContinue, s)
          else if c = CHR ''e'' \<or> c = CHR ''E'' then (scanContinue, s\<lparr>step := stateE\<rparr>)
          else stateEndValue_step s c
      | stateE \<Rightarrow>
          if c = CHR ''+'' \<or> c = CHR ''-'' then (scanContinue, s\<lparr>step := stateESign\<rparr>)
          else stateESign_step s c
      | stateESign \<Rightarrow> stateESign_step s c
      | stateE0 \<Rightarrow> if isDigit c then (scanContinue, s) else stateEndValue_step s c
      | stateLit r \<Rightarrow>
          (case r of
             [] \<Rightarrow> scan_error s
           | x # xs \<Rightarrow>
               if c = x then (scanContinue, s\<lparr>step := (if xs = [] then stateEndValue else stateLit xs)\<rparr>)
               else scan_error s)
      | stateError \<Rightarrow> (scanError, s))"

text \<open>\<open>scanner.eof\<close>: true when the input so far is a complete JSON value.\<close>

definition scan_eof :: "scanner \<Rightarrow> bool" where
  "scan_eof s =
     (if step s = stateError then False
      else if endTop s then True
      else endTop (snd (scan_step s (CHR '' ''))))"

text \<open>\<open>checkValid\<close>: step through every byte, stop at the first \<open>scanError\<close>, then \<open>eof\<close>.\<close>

fun scan_bytes :: "scanner \<Rightarrow> string \<Rightarrow> scanner option" where
  "scan_bytes s [] = Some s"
| "scan_bytes s (c # cs) =
     (case scan_step s c of (v, s') \<Rightarrow> if v = scanError then None else scan_bytes s' cs)"

definition checkValid :: "string \<Rightarrow> bool" where
  "checkValid data = (case scan_bytes newScanner data of None \<Rightarrow> False | Some s \<Rightarrow> scan_eof s)"

definition hex_char :: "nat \<Rightarrow> char" where
  "hex_char n = ''0123456789abcdef'' ! (n mod 16)"

definition u00 :: "char \<Rightarrow> string" where
  "u00 c = [CHR 0x5C, CHR ''u'', CHR ''0'', CHR ''0'', hex_char (byte c div 16), hex_char (byte c mod 16)]"

definition is_line_sep :: "string \<Rightarrow> bool" where
  "is_line_sep s =
     (case s of
        c0 # c1 # c2 # _ \<Rightarrow> c0 = CHR 0xE2 \<and> c1 = CHR 0x80 \<and> (c2 = CHR 0xA8 \<or> c2 = CHR 0xA9)
      | _ \<Rightarrow> False)"

definition u202 :: "string \<Rightarrow> string" where
  "u202 s = [CHR 0x5C, CHR ''u'', CHR ''2'', CHR ''0'', CHR ''2'', hex_char (byte (s ! 2) mod 16)]"

text \<open>
  \<open>appendCompact\<close> with HTML escaping, as the encoder applies it to the output of a
  \<open>Marshaler\<close>: white space between tokens is dropped, \<open><\<close>, \<open>>\<close>, \<open>&\<close> and the
  line separators U+2028 and U+2029 are written as \<open>\u\<close> escapes; the result is an
  error when the input is not one JSON value.  \<open>skip\<close> counts the bytes of a line
  separator still to pass over.
\<close>

fun compact_loop :: "scanner \<Rightarrow> nat \<Rightarrow> string \<Rightarrow> string \<Rightarrow> (string \<times> scanner) option" where
  "compact_loop s skip [] out = Some (out, s)"
| "compact_loop s skip (c # cs) out =
     (let emit = (if skip > 0 then []
                  else if c = CHR ''<'' \<or> c = CHR ''>'' \<or> c = CHR ''&'' then u00 c
                  else if is_line_sep (c # cs) then u202 (c # cs)
                  else [c]);
          skip' = (if skip > 0 then skip - 1 else if is_line_sep (c # cs) then 2 else 0)
      in case scan_step s c of
           (v, s') \<Rightarrow>
             if v = scanError then None
             else if v = scanSkipSpace \<or> v = scanEnd then compact_loop s' skip' cs out
             else compact_loop s' skip' cs (out @ emit))"

definition compact :: "string \<Rightarrow> go_error + string" where
  "compact src =
     (case compact_loop newScanner 0 src [] of
        None \<Rightarrow> Inl (errorString ''invalid character in JSON text'')
      | Some (out, s) \<Rightarrow>
          if scan_eof s then Inr out else Inl (errorString ''unexpected end of JSON input''))"

text \<open>
  The width of the UTF-8 encoding at the head of a byte string as \<open>utf8.DecodeRune\<close>
  finds it; 0 stands for an invalid encoding (\<open>RuneError\<close> of width 1).
\<close>

definition cont :: "char \<Rightarrow> bool" where
  "cont c = (128 \<le> byte c \<and> byte c \<le> 191)"

definition utf8_size :: "string \<Rightarrow> nat" where
  "utf8_size s =
     (case s of
        [] \<Rightarrow> 0
      | c0 # r \<Rightarrow>
          if byte c0 < 128 then 1
          else if 194 \<le> byte c0 \<and> byte c0 \<le> 223 then
            (case r of c1 # _ \<Rightarrow> if cont c1 then 2 else 0 | _ \<Rightarrow> 0)
          else if 224 \<le> byte c0 \<and> byte c0 \<le> 239 then
            (case r of
               c1 # c2 # _ \<Rightarrow>
                 if (if byte c0 = 224 then 160 else 128) \<le> byte c1
                    \<and> byte c1 \<le> (if byte c0 = 237 then 159 else 191) \<and> cont c2
                 then 3 else 0
             | _ \<Rightarrow> 0)
          else if 240 \<le> byte c0 \<and> byte c0 \<le> 244 then
            (case r of
               c1 # c2 # c3 # _ \<Rightarrow>
                 if (if byte c0 = 240 then 144 else 128) \<le> byte c1
                    \<and> byte c1 \<le> (if byte c0 = 244 then 143 else 191) \<and> cont c2 \<and> cont c3
                 then 4 else 0
             | _ \<Rightarrow> 0)
          else 0)"

text \<open>
  How the encoder writes a string (with HTML escaping, as \<open>json.Marshal\<close> does): the
  quote and the backslash get a backslash, backspace, form feed, newline, carriage
  return and tab their letter, the other control characters and \<open><\<close>, \<open>>\<close>, \<open>&\<close>
  a \<open>\u00XX\<close> escape, an invalid UTF-8 byte becomes the escape of the replacement
  character U+FFFD, and U+2028, U+2029 are escaped.
\<close>

definition escape_ascii :: "char \<Rightarrow> string" where
  "escape_ascii c =
     (if c = CHR 0x5C \<or> c = CHR 0x22 then [CHR 0x5C, c]
      else if c = CHR 0x08 then [CHR 0x5C, CHR ''b'']
      else if c = CHR 0x0C then [CHR 0x5C, CHR ''f'']
      else if c = CHR 0x0A then [CHR 0x5C, CHR ''n'']
      else if c = CHR 0x0D then [CHR 0x5C, CHR ''r'']
      else if c = CHR 0x09 then [CHR 0x5C, CHR ''t'']
      else if byte c < 32 \<or> c = CHR ''<'' \<or> c = CHR ''>'' \<or> c = CHR ''&'' then u00 c
      else [c])"

fun appendString_loop :: "string \<Rightarrow> string" where
  "appendString_loop [] = []"
| "appendString_loop (c # cs) =
     (if byte c < 128 then escape_ascii c @ appendString_loop cs
      else if utf8_size (c # cs) = 0 then
        [CHR 0x5C, CHR ''u'', CHR ''f'', CHR ''f'', CHR ''f'', CHR ''d''] @ appendString_loop cs
      else if is_line_sep (c # cs) then u202 (c # cs) @ appendString_loop (drop 2 cs)
      else c # take (utf8_size (c # cs) - 1) cs @ appendString_loop (drop (utf8_size (c # cs) - 1) cs))"

definition appendString :: "string \<Rightarrow> string" where
  "appendString s = [CHR 0x22] @ appendString_loop s @ [CHR 0x22]"

text \<open>
  \<open>ID.MarshalJSON\<close>.  (The encoder compacts what a \<open>Marshaler\<close> returns; a number, a
  string written by \<open>json.Marshal\<close> and \<open>null\<close> stay as they are.)
\<close>

definition ID_MarshalJSON :: "ID \<Rightarrow> string" where
  "ID_MarshalJSON i =
     (case num i of
        Some n \<Rightarrow> fmt_d (sint n)
      | None \<Rightarrow> (case str i of Some s \<Rightarrow> appendString s | None \<Rightarrow> ''null''))"

text \<open>
  A field \<open>json.RawMessage\<close> tagged \<open>omitempty\<close>, after an earlier field: nothing when
  it is empty, else a comma, the quoted name, a colon and the compacted bytes.
\<close>

definition raw_field :: "string \<Rightarrow> string \<Rightarrow> go_error + string" where
  "raw_field nm raw =
     (if raw = [] then Inr []
      else case compact raw of
             Inl err \<Rightarrow> Inl err
           | Inr v \<Rightarrow> Inr ('','' @ appendString nm @ '':'' @ v))"

definition marshal_Error :: "Error \<Rightarrow> go_error + string" where
  "marshal_Error e =
     (case raw_field ''data'' (Data e) of
        Inl err \<Rightarrow> Inl err
      | Inr d \<Rightarrow>
          Inr (''{'' @ appendString ''code'' @ '':'' @ fmt_d (sint (Code e))
               @ '','' @ appendString ''message'' @ '':'' @ appendString (Message e) @ d @ ''}''))"

text \<open>
  \<open>json.Marshal\<close> of a \<open>*Message\<close>: the fields in the order of the struct, those tagged
  \<open>omitempty\<close> left out when nil or empty.
\<close>

definition json_Marshal :: "Message \<Rightarrow> go_error + string" where
  "json_Marshal m =
     (let version = appendString ''jsonrpc'' @ '':'' @ appendString (JSONRPC m);
          ident = (case ID m of None \<Rightarrow> [] | Some i \<Rightarrow> '','' @ appendString ''id'' @ '':'' @ ID_MarshalJSON i);
          method = (if Method m = [] then [] else '','' @ appendString ''method'' @ '':'' @ appendString (Method m))
      in case raw_field ''params'' (Params m) of
           Inl err \<Rightarrow> Inl err
         | Inr params \<Rightarrow>
             (case raw_field ''result'' (Result m) of
                Inl err \<Rightarrow> Inl err
              | Inr result \<Rightarrow>
                  (case (case Error m of
                           None \<Rightarrow> Inr []
                         | Some e \<Rightarrow>
                             (case marshal_Error e of
                                Inl err \<Rightarrow> Inl err
                              | Inr v \<Rightarrow> Inr ('','' @ appendString ''error'' @ '':'' @ v))) of
                     Inl err \<Rightarrow> Inl err
                   | Inr error \<Rightarrow>
                       Inr (''{'' @ version @ ident @ method @ params @ result @ error @ ''}''))))"

section \<open>More string helpers: trimming, splitting, folding, numbers\<close>

text \<open>
  \<open>strings.TrimSpace\<close> removes the white space runes at both ends: the ASCII ones and,
  in their UTF-8 encoding, U+0085, U+00A0, U+1680, U+2000 to U+200A, U+2028, U+2029,
  U+202F, U+205F and U+3000.
\<close>

definition space_runes :: "string list" where
  "space_runes =
     [[CHR 0x09], [CHR 0x0A], [CHR 0x0B], [CHR 0x0C], [CHR 0x0D], [CHR 0x20],
      [CHR 0xC2, CHR 0x85], [CHR 0xC2, CHR 0xA0], [CHR 0xE1, CHR 0x9A, CHR 0x80],
      [CHR 0xE2, CHR 0x80, CHR 0x80], [CHR 0xE2, CHR 0x80, CHR 0x81], [CHR 0xE2, CHR 0x80, CHR 0x82],
      [CHR 0xE2, CHR 0x80, CHR 0x83], [CHR 0xE2, CHR 0x80, CHR 0x84], [CHR 0xE2, CHR 0x80, CHR 0x85],
      [CHR 0xE2, CHR 0x80, CHR 0x86], [CHR 0xE2, CHR 0x80, CHR 0x87], [CHR 0xE2, CHR 0x80, CHR 0x88],
      [CHR 0xE2, CHR 0x80, CHR 0x89], [CHR 0xE2, CHR 0x80, CHR 0x8A], [CHR 0xE2, CHR 0x80, CHR 0xA8],
      [CHR 0xE2, CHR 0x80, CHR 0xA9], [CHR 0xE2, CHR 0x80, CHR 0xAF], [CHR 0xE2, CHR 0x81, CHR 0x9F],
      [CHR 0xE3, CHR 0x80, CHR 0x80]]"

definition rune_width :: "string list \<Rightarrow> string \<Rightarrow> nat" where
  "rune_width runes s =
     (case find (\<lambda>r. strings_HasPrefix s r) runes of None \<Rightarrow> 0 | Some r \<Rightarrow> length r)"

fun trim_runes :: "string list \<Rightarrow> string \<Rightarrow> string" where
  "trim_runes runes [] = []"
| "trim_runes runes (c # cs) =
     (if rune_width runes (c # cs) = 0 then c # cs
      else trim_runes runes (drop (rune_width runes (c # cs) - 1) cs))"

definition strings_TrimSpace :: "string \<Rightarrow> string" where
  "strings_TrimSpace s =
     rev (trim_runes (map rev space_runes) (rev (trim_runes space_runes s)))"

text \<open>
  \<open>strings.SplitN(line, ":", 2)\<close>: one part when there is no colon, else the text
  before the first colon and the text after it.
\<close>

definition SplitN_colon :: "string \<Rightarrow> string list" where
  "SplitN_colon line =
     (if CHR '':'' \<in> set line then
        [takeWhile (\<lambda>c. c \<noteq> CHR '':'') line, tl (dropWhile (\<lambda>c. c \<noteq> CHR '':'') line)]
      else [line])"

text \<open>
  \<open>strings.EqualFold\<close> against \<open>Content-Length\<close>.  No letter of that name folds to a
  rune outside ASCII, so the comparison is that of the ASCII-lowercased bytes.
\<close>

definition EqualFold_Content_Length :: "string \<Rightarrow> bool" where
  "EqualFold_Content_Length nm = (map lower_char nm = ''content-length'')"

text \<open>
  \<open>strconv.Atoi\<close>: an optional sign and decimal digits, within the range of a 64-bit
  \<open>int\<close>; \<open>None\<close> is the error.
\<close>

fun parse_digits :: "int \<Rightarrow> string \<Rightarrow> int option" where
  "parse_digits acc [] = Some acc"
| "parse_digits acc (c # cs) =
     (if isDigit c then parse_digits (acc * 10 + (int (byte c) - 48)) cs else None)"

definition in_int64 :: "int \<Rightarrow> bool" where
  "in_int64 v = (- 9223372036854775808 \<le> v \<and> v \<le> 9223372036854775807)"

definition strconv_Atoi :: "string \<Rightarrow> int option" where
  "strconv_Atoi s =
     (let neg = (s \<noteq> [] \<and> hd s = CHR ''-'');
          ds = (if s \<noteq> [] \<and> (hd s = CHR ''-'' \<or> hd s = CHR ''+'') then tl s else s)
      in if ds = [] then None
         else case parse_digits 0 ds of
                None \<Rightarrow> None
              | Some n \<Rightarrow> if in_int64 (if neg then - n else n) then Some (if neg then - n else n) else None)"

section \<open>Decoding a message (json.Unmarshal into Message)\<close>

text \<open>
  The value of a hexadecimal digit, the UTF-8 encoding of a rune, and the four
  hexadecimal digits after \<open>\u\<close> (\<open>getu4\<close>).
\<close>

definition hex_val :: "char \<Rightarrow> nat" where
  "hex_val c =
     (if isDigit c then byte c - 48
      else if 97 \<le> byte c \<and> byte c \<le> 102 then byte c - 87
      else byte c - 55)"

definition EncodeRune :: "nat \<Rightarrow> string" where
  "EncodeRune r =
     (if r < 128 then [char_of r]
      else if r < 2048 then [char_of (192 + r div 64), char_of (128 + r mod 64)]
      else if r < 65536 then
        [char_of (224 + r div 4096), char_of (128 + (r div 64) mod 64), char_of (128 + r mod 64)]
      else
        [char_of (240 + r div 262144), char_of (128 + (r div 4096) mod 64),
         char_of (128 + (r div 64) mod 64), char_of (128 + r mod 64)])"

definition getu4 :: "string \<Rightarrow> nat option" where
  "getu4 s =
     (case s of
        b # u # h1 # h2 # h3 # h4 # _ \<Rightarrow>
          if b = CHR 0x5C \<and> u = CHR ''u'' \<and> isHex h1 \<and> isHex h2 \<and> isHex h3 \<and> isHex h4 then
            Some (((hex_val h1 * 16 + hex_val h2) * 16 + hex_val h3) * 16 + hex_val h4)
          else None
      | _ \<Rightarrow> None)"

definition ReplacementChar :: nat where
  "ReplacementChar = 65533"

text \<open>
  The rune a \<open>\u\<close> escape at the head of \<open>s\<close> stands for, and how many bytes it takes:
  a surrogate pair is combined, a lone surrogate becomes the replacement character.
\<close>

definition escaped_rune :: "string \<Rightarrow> (nat \<times> nat) option" where
  "escaped_rune s =
     (case getu4 s of
        None \<Rightarrow> None
      | Some rr \<Rightarrow>
          if 55296 \<le> rr \<and> rr < 57344 then
            (case getu4 (drop 6 s) of
               Some rr1 \<Rightarrow>
                 if rr < 56320 \<and> 56320 \<le> rr1 \<and> rr1 < 57344 then
                   Some ((rr - 55296) * 1024 + (rr1 - 56320) + 65536, 12)
                 else Some (ReplacementChar, 6)
             | None \<Rightarrow> Some (ReplacementChar, 6))
          else Some (rr, 6))"

text \<open>
  \<open>unquoteBytes\<close> on the text between the quotes: escapes are resolved, invalid UTF-8
  is coerced to the replacement character; a quote or a control character is refused.
\<close>

fun unquote_loop :: "string \<Rightarrow> string option" where
  "unquote_loop [] = Some []"
| "unquote_loop (c # cs) =
     (if c = CHR 0x5C then
        (case cs of
           [] \<Rightarrow> None
         | e # rest \<Rightarrow>
             if e = CHR 0x22 \<or> e = CHR 0x5C \<or> e = CHR ''/'' \<or> e = CHR 0x27 then
               map_option ((#) e) (unquote_loop rest)
             else if e = CHR ''b'' then map_option ((#) (CHR 0x08)) (unquote_loop rest)
             else if e = CHR ''f'' then map_option ((#) (CHR 0x0C)) (unquote_loop rest)
             else if e = CHR ''n'' then map_option ((#) (CHR 0x0A)) (unquote_loop rest)
             else if e = CHR ''r'' then map_option ((#) (CHR 0x0D)) (unquote_loop rest)
             else if e = CHR ''t'' then map_option ((#) (CHR 0x09)) (unquote_loop rest)
             else if e = CHR ''u'' then
               (case escaped_rune (c # cs) of
                  None \<Rightarrow> None
                | Some (r, n) \<Rightarrow> map_option ((@) (EncodeRune r)) (unquote_loop (drop (n - 1) cs)))
             else None)
      else if c = CHR 0x22 \<or> byte c < 32 then None
      else if byte c < 128 then map_option ((#) c) (unquote_loop cs)
      else if utf8_size (c # cs) = 0 then
        map_option ((@) (EncodeRune ReplacementChar)) (unquote_loop cs)
      else
        map_option ((@) (c # take (utf8_size (c # cs) - 1) cs))
          (unquote_loop (drop (utf8_size (c # cs) - 1) cs)))"

definition unquote :: "string \<Rightarrow> string option" where
  "unquote s =
     (if length s < 2 \<or> hd s \<noteq> CHR 0x22 \<or> last s \<noteq> CHR 0x22 then None
      else unquote_loop (butlast (tl s)))"

text \<open>
  The members of the object a valid JSON text consists of, as pairs of the raw key and
  the raw value, in order.  The scanner is stepped over the text; at nesting depth 1
  the colon, the commas and the closing brace delimit keys and values and white space is
  skipped, while everything deeper belongs to the value that is being read.
\<close>

fun split_members :: "scanner \<Rightarrow> string \<Rightarrow> string \<Rightarrow> (string \<times> string) list \<Rightarrow> string
    \<Rightarrow> (string \<times> string) list" where
  "split_members s k v ms [] = ms"
| "split_members s k v ms (c # cs) =
     (case scan_step s c of
        (code, s') \<Rightarrow>
          if length (parseState s) = 0 then split_members s' k v ms cs
          else if length (parseState s) = 1 then
            (if code = scanSkipSpace \<or> code = scanObjectKey then split_members s' k v ms cs
             else if code = scanObjectValue then split_members s' [] [] (ms @ [(k, v)]) cs
             else if code = scanEndObject then
               split_members s' [] [] (if k = [] then ms else ms @ [(k, v)]) cs
             else if hd (parseState s) = parseObjectKey then split_members s' (k @ [c]) v ms cs
             else split_members s' k (v @ [c]) ms cs)
          else split_members s' k (v @ [c]) ms cs)"

definition object_members :: "string \<Rightarrow> (string \<times> string) list" where
  "object_members data = split_members newScanner [] [] [] data"

definition first_byte :: "string \<Rightarrow> char option" where
  "first_byte data = (case dropWhile isSpace data of [] \<Rightarrow> None | c # _ \<Rightarrow> Some c)"

definition literal_text :: "string \<Rightarrow> string" where
  "literal_text data = takeWhile (\<lambda>c. \<not> isSpace c) (dropWhile isSpace data)"

text \<open>
  \<open>json.Unmarshal\<close> of a JSON text into an \<open>int64\<close> and into a \<open>string\<close>, as
  \<open>ID.UnmarshalJSON\<close> calls it: \<open>None\<close> when it returns an error.  A number must be
  an integer literal in range; \<open>null\<close> leaves the variable at its zero value.
  \<open>strconv.ParseInt\<close> in base 10 at 64 bits accepts what \<open>strconv.Atoi\<close> accepts.
\<close>

definition ParseInt64 :: "string \<Rightarrow> int option" where
  "ParseInt64 s = strconv_Atoi s"

definition json_Unmarshal_int64 :: "string \<Rightarrow> int64 option" where
  "json_Unmarshal_int64 data =
     (if \<not> checkValid data then None
      else case first_byte data of
             None \<Rightarrow> None
           | Some c \<Rightarrow>
               if c = CHR ''n'' then Some 0
               else if c = CHR ''-'' \<or> isDigit c then map_option of_int (ParseInt64 (literal_text data))
               else None)"

definition json_Unmarshal_string :: "string \<Rightarrow> string option" where
  "json_Unmarshal_string data =
     (if \<not> checkValid data then None
      else case first_byte data of
             None \<Rightarrow> None
           | Some c \<Rightarrow>
               if c = CHR ''n'' then Some []
               else if c = CHR 0x22 then
                 unquote (rev (dropWhile isSpace (rev (dropWhile isSpace data))))
               else None)"

definition ID_UnmarshalJSON :: "ID \<Rightarrow> string \<Rightarrow> go_error + ID" where
  "ID_UnmarshalJSON i data =
     (if data = ''null'' then Inr i
      else case json_Unmarshal_int64 data of
             Some n \<Rightarrow> Inr (i\<lparr>num := Some n\<rparr>)
           | None \<Rightarrow>
               (case json_Unmarshal_string data of
                  Some s \<Rightarrow> Inr (i\<lparr>str := Some s\<rparr>)
                | None \<Rightarrow> Inl (errorString ''id must be number, string, or null'')))"

text \<open>
  What decoding one value into one field comes to: the field's new value, a type
  mismatch (the decoder remembers it, goes on, and fails at the end), or an error that
  ends the decoding at once.
\<close>

datatype 'a decoded = stored 'a | mismatch | failed go_error

definition decode_string :: "string \<Rightarrow> string \<Rightarrow> string decoded" where
  "decode_string old raw =
     (if raw = ''null'' then stored old
      else if raw \<noteq> [] \<and> hd raw = CHR 0x22 then
        (case unquote raw of None \<Rightarrow> mismatch | Some s \<Rightarrow> stored s)
      else mismatch)"

definition decode_int :: "int64 \<Rightarrow> string \<Rightarrow> int64 decoded" where
  "decode_int old raw =
     (if raw = ''null'' then stored old
      else if raw \<noteq> [] \<and> (hd raw = CHR ''-'' \<or> isDigit (hd raw)) then
        (case ParseInt64 raw of None \<Rightarrow> mismatch | Some n \<Rightarrow> stored (of_int n))
      else mismatch)"

text \<open>
  A JSON \<open>null\<close> sets a pointer field to nil without calling its \<open>UnmarshalJSON\<close>;
  any other value is handed to \<open>ID.UnmarshalJSON\<close> on the id the field points to, or on
  a new one.
\<close>

definition decode_ID :: "ID option \<Rightarrow> string \<Rightarrow> ID option decoded" where
  "decode_ID old raw =
     (if raw = ''null'' then stored None
      else case ID_UnmarshalJSON (case old of None \<Rightarrow> \<lparr>num = None, str = None\<rparr> | Some i \<Rightarrow> i) raw of
             Inl err \<Rightarrow> failed err
           | Inr i \<Rightarrow> stored (Some i))"

text \<open>
  The decoder matches a key with a field name exactly or, failing that, under simple
  case folding.  The field names here are lowercase ASCII, so a key matches a name
  exactly when its folded form is the name: the ASCII letters are lower-cased, and the
  two runes beyond ASCII that fold to an ASCII letter, U+017F (to s) and U+212A (to k),
  are replaced by it.
\<close>

fun fold_name :: "string \<Rightarrow> string" where
  "fold_name [] = []"
| "fold_name (c # cs) =
     (if c = CHR 0xC5 \<and> take 1 cs = [CHR 0xBF] then CHR ''s'' # fold_name (drop 1 cs)
      else if c = CHR 0xE2 \<and> take 2 cs = [CHR 0x84, CHR 0xAA] then CHR ''k'' # fold_name (drop 2 cs)
      else lower_char c # fold_name cs)"

fun decode_Error_members :: "(string \<times> string) list \<Rightarrow> Error \<Rightarrow> bool \<Rightarrow> Error option" where
  "decode_Error_members [] e bad = (if bad then None else Some e)"
| "decode_Error_members ((k, v) # ms) e bad =
     (case map_option fold_name (unquote k) of
        None \<Rightarrow> decode_Error_members ms e True
      | Some nm \<Rightarrow>
          if nm = ''code'' then
            (case decode_int (Code e) v of
               stored n \<Rightarrow> decode_Error_members ms (e\<lparr>Code := n\<rparr>) bad
             | _ \<Rightarrow> decode_Error_members ms e True)
          else if nm = ''message'' then
            (case decode_string (Message e) v of
               stored s \<Rightarrow> decode_Error_members ms (e\<lparr>Message := s\<rparr>) bad
             | _ \<Rightarrow> decode_Error_members ms e True)
          else if nm = ''data'' then decode_Error_members ms (e\<lparr>Data := v\<rparr>) bad
          else decode_Error_members ms e bad)"

definition decode_Error :: "Error option \<Rightarrow> string \<Rightarrow> Error option decoded" where
  "decode_Error old raw =
     (if raw = ''null'' then stored None
      else if raw \<noteq> [] \<and> hd raw = CHR ''{'' then
        (case decode_Error_members (object_members raw)
                (case old of None \<Rightarrow> \<lparr>Code = 0, Message = [], Data = []\<rparr> | Some e \<Rightarrow> e) False of
           None \<Rightarrow> mismatch
         | Some e \<Rightarrow> stored (Some e))
      else mismatch)"

fun decode_Message_members :: "(string \<times> string) list \<Rightarrow> Message \<Rightarrow> bool \<Rightarrow> go_error + Message" where
  "decode_Message_members [] m bad =
     (if bad then Inl (errorString ''json: cannot unmarshal value into Go struct field'') else Inr m)"
| "decode_Message_members ((k, v) # ms) m bad =
     (case map_option fold_name (unquote k) of
        None \<Rightarrow> decode_Message_members ms m True
      | Some nm \<Rightarrow>
          if nm = ''jsonrpc'' then
            (case decode_string (JSONRPC m) v of
               stored s \<Rightarrow> decode_Message_members ms (m\<lparr>JSONRPC := s\<rparr>) bad
             | _ \<Rightarrow> decode_Message_members ms m True)
          else if nm = ''id'' then
            (case decode_ID (ID m) v of
               stored i \<Rightarrow> decode_Message_members ms (m\<lparr>ID := i\<rparr>) bad
             | mismatch \<Rightarrow> decode_Message_members ms m True
             | failed err \<Rightarrow> Inl err)
          else if nm = ''method'' then
            (case decode_string (Method m) v of
               stored s \<Rightarrow> decode_Message_members ms (m\<lparr>Method := s\<rparr>) bad
             | _ \<Rightarrow> decode_Message_members ms m True)
          else if nm = ''params'' then decode_Message_members ms (m\<lparr>Params := v\<rparr>) bad
          else if nm = ''result'' then decode_Message_members ms (m\<lparr>Result := v\<rparr>) bad
          else if nm = ''error'' then
            (case decode_Error (Error m) v of
               stored e \<Rightarrow> decode_Message_members ms (m\<lparr>Error := e\<rparr>) bad
             | _ \<Rightarrow> decode_Message_members ms m True)
          else decode_Message_members ms m bad)"

text \<open>
  \<open>json.Unmarshal(body, &msg)\<close> for a fresh \<open>msg\<close>: the text must be valid JSON; an
  object is decoded member by member, \<open>null\<close> leaves the message at its zero value,
  any other value does not fit the struct.
\<close>

definition zero_Message :: Message where
  "zero_Message = \<lparr>JSONRPC = [], ID = None, Method = [], Params = [], Result = [], Error = None\<rparr>"

definition json_Unmarshal :: "string \<Rightarrow> go_error + Message" where
  "json_Unmarshal data =
     (if \<not> checkValid data then Inl (errorString ''invalid JSON text'')
      else case first_byte data of
             None \<Rightarrow> Inl (errorString ''unexpected end of JSON input'')
           | Some c \<Rightarrow>
               if c = CHR ''{'' then decode_Message_members (object_members data) zero_Message False
               else if c = CHR ''n'' then Inr zero_Message
               else Inl (errorString ''json: cannot unmarshal value into Go value of type jsonrpc.Message''))"

section \<open>LSP framing (Stream) and the session (Conn)\<close>

text \<open>
  A \<open>Stream\<close> holds the bytes its reader has yet to deliver (all that arrive before the
  end of input) and the bytes written to its writer so far.  \<open>werr\<close> is the error the
  underlying \<open>io.Writer\<close> answers with, if it is broken.
\<close>

record Stream =
  reader :: string
  writer :: string
  werr :: "go_error option"

definition CRLF :: string where
  "CRLF = [CHR 0x0D, CHR 0x0A]"

definition Stream_Write :: "Stream \<Rightarrow> Message \<Rightarrow> go_error option \<times> Stream" where
  "Stream_Write s msg =
     (case json_Marshal msg of
        Inl err \<Rightarrow> (Some (wrap_error ''marshaling message'' err), s)
      | Inr body \<Rightarrow>
          (let header = ''Content-Length: '' @ fmt_d (int (length body)) @ CRLF @ CRLF
           in case werr s of
                Some err \<Rightarrow> (Some (wrap_error ''writing header'' err), s)
              | None \<Rightarrow> (None, s\<lparr>writer := writer s @ header @ body\<rparr>)))"

text \<open>What a call comes to: it blocks for ever, panics, or returns.\<close>

datatype 'a outcome = blocks | panics | returns 'a

text \<open>
  \<open>Stream.Read\<close>.  The header loop reads lines with \<open>ReadString\<close>: the bytes up to
  and including the next line feed, or an error when the input ends first.  \<open>acc\<close>
  holds the bytes of the line read so far.  Each line is trimmed; a blank line ends the
  loop, a line without colon is an error, a line named \<open>Content-Length\<close> sets the
  length and any other line is passed over.
\<close>

datatype header_line = blank_line | other_header | content_length int | bad_header go_error

definition read_header_line :: "string \<Rightarrow> header_line" where
  "read_header_line line0 =
     (let line = strings_TrimSpace line0
      in if line = [] then blank_line
         else case SplitN_colon line of
                [p0, p1] \<Rightarrow>
                  (let nm = strings_TrimSpace p0; v = strings_TrimSpace p1
                   in if EqualFold_Content_Length nm then
                        (case strconv_Atoi v of
                           None \<Rightarrow>
                             bad_header (errorString (''parsing Content-Length: strconv.Atoi: parsing '' @ v))
                         | Some n \<Rightarrow> content_length n)
                      else other_header)
              | _ \<Rightarrow> bad_header (errorString (''invalid header line: '' @ line)))"

fun read_headers :: "int \<Rightarrow> string \<Rightarrow> string \<Rightarrow> (go_error + int) \<times> string" where
  "read_headers contentLength acc [] = (Inl (errorString ''reading header line: EOF''), [])"
| "read_headers contentLength acc (c # cs) =
     (if c \<noteq> CHR 0x0A then read_headers contentLength (acc @ [c]) cs
      else case read_header_line (acc @ [c]) of
             blank_line \<Rightarrow> (Inr contentLength, cs)
           | other_header \<Rightarrow> read_headers contentLength [] cs
           | content_length n \<Rightarrow> read_headers n [] cs
           | bad_header err \<Rightarrow> (Inl err, cs))"

text \<open>
  \<open>make([]byte, n)\<close> panics when \<open>n\<close> exceeds the largest allocation (2^48 bytes on
  64-bit platforms).  \<open>io.ReadFull\<close> fails when fewer than \<open>n\<close> bytes are left.
\<close>

definition maxAlloc :: int where
  "maxAlloc = 281474976710656"

definition ReadFull :: "string \<Rightarrow> nat \<Rightarrow> (string \<times> string) option" where
  "ReadFull r n = (if length r < n then None else Some (take n r, drop n r))"

definition Stream_Read :: "Stream \<Rightarrow> (go_error + Message) outcome \<times> Stream" where
  "Stream_Read s =
     (case read_headers (- 1) [] (reader s) of
        (Inl err, rest) \<Rightarrow> (returns (Inl err), s\<lparr>reader := rest\<rparr>)
      | (Inr contentLength, rest) \<Rightarrow>
          if contentLength < 0 then
            (returns (Inl (errorString ''missing Content-Length header'')), s\<lparr>reader := rest\<rparr>)
          else if contentLength > maxAlloc then (panics, s\<lparr>reader := rest\<rparr>)
          else (case ReadFull rest (nat contentLength) of
                  None \<Rightarrow> (returns (Inl (errorString ''reading body: unexpected EOF'')), s\<lparr>reader := []\<rparr>)
                | Some (body, rest') \<Rightarrow>
                    (case json_Unmarshal body of
                       Inl err \<Rightarrow> (returns (Inl (wrap_error ''parsing message'' err)), s\<lparr>reader := rest'\<rparr>)
                     | Inr msg \<Rightarrow> (returns (Inr msg), s\<lparr>reader := rest'\<rparr>))))"

text \<open>
  Writing a message and reading the written bytes back: \<open>read(write(m))\<close>.
\<close>

definition write_then_read :: "Message \<Rightarrow> (go_error + Message) outcome" where
  "write_then_read m =
     (case Stream_Write \<lparr>reader = [], writer = [], werr = None\<rparr> m of
        (Some err, s) \<Rightarrow> returns (Inl err)
      | (None, s) \<Rightarrow> fst (Stream_Read \<lparr>reader = writer s, writer = [], werr = None\<rparr>))"

text \<open>
  Header lines as a peer writes them, for stating what the reader does with them: a
  name, a colon, a space, a value, CR LF.  Names and values are made of visible ASCII
  characters, and a name has no colon.
\<close>

definition header :: "string \<Rightarrow> string \<Rightarrow> string" where
  "header nm v = nm @ '': '' @ v @ CRLF"

definition visible :: "char \<Rightarrow> bool" where
  "visible c = (33 \<le> byte c \<and> byte c \<le> 126)"

definition other_headers :: "(string \<times> string) list \<Rightarrow> bool" where
  "other_headers hs =
     list_all (\<lambda>(nm, v). list_all visible nm \<and> CHR '':'' \<notin> set nm \<and> list_all visible v
                \<and> \<not> EqualFold_Content_Length nm) hs"

definition headers :: "(string \<times> string) list \<Rightarrow> string" where
  "headers hs = concat (map (\<lambda>(nm, v). header nm v) hs)"

text \<open>
  A channel \<open>chan *Message\<close>: the messages in its buffer and whether it is closed.
  Channels live in a store indexed by allocation number.  The handler is a function of
  the inbound message (the context plays no part in the claims).
\<close>

record chan =
  buf :: "Message list"
  chan_closed :: bool

type_synonym Handler = "Message \<Rightarrow> Message option \<times> go_error option"

record Conn =
  stream :: Stream
  handler :: "Handler option"
  pending :: "string \<rightharpoonup> nat"
  chans :: "nat \<rightharpoonup> chan"
  nchans :: nat
  nextID :: int64
  closed :: bool
  closeErr :: "go_error option"

definition NewConn :: "string \<Rightarrow> Handler option \<Rightarrow> Conn" where
  "NewConn r h =
     \<lparr>stream = \<lparr>reader = r, writer = [], werr = None\<rparr>, handler = h, pending = Map.empty,
      chans = Map.empty, nchans = 0, nextID = 0, closed = False, closeErr = None\<rparr>"

definition NextID :: "Conn \<Rightarrow> ID \<times> Conn" where
  "NextID c = (NewNumberID (nextID c + 1), c\<lparr>nextID := nextID c + 1\<rparr>)"

text \<open>
  \<open>handleResponse\<close>.  Dereferencing a nil \<open>msg.ID\<close> panics.  The send on the channel
  of capacity 1 puts the message in the buffer; \<open>close\<close> follows.
\<close>

definition chan_send_close :: "(nat \<rightharpoonup> chan) \<Rightarrow> nat \<Rightarrow> Message \<Rightarrow> (nat \<rightharpoonup> chan)" where
  "chan_send_close cs ch msg =
     (case cs ch of
        None \<Rightarrow> cs
      | Some q \<Rightarrow> cs(ch \<mapsto> q\<lparr>buf := buf q @ [msg], chan_closed := True\<rparr>))"

definition handleResponse :: "Conn \<Rightarrow> Message \<Rightarrow> Conn outcome" where
  "handleResponse c msg =
     (case ID msg of
        None \<Rightarrow> panics
      | Some i \<Rightarrow>
          (case pending c (ID_String i) of
             None \<Rightarrow> returns c
           | Some ch \<Rightarrow>
               returns (c\<lparr>pending := (pending c)(ID_String i := None),
                          chans := chan_send_close (chans c) ch msg\<rparr>)))"

text \<open>\<open>handleMessage\<close>.  The results of \<open>Stream.Write\<close> are dropped, as in the source.\<close>

definition handleMessage :: "Conn \<Rightarrow> Message \<Rightarrow> Conn" where
  "handleMessage c msg =
     (case handler c of
        None \<Rightarrow> c
      | Some h \<Rightarrow>
          (case h msg of
             (resp, Some err) \<Rightarrow>
               if IsRequest msg then
                 (case ID msg of
                    None \<Rightarrow> c
                  | Some i \<Rightarrow>
                      (case NewErrorResponse i InternalError (error_text err) nil of
                         Inl e \<Rightarrow> c
                       | Inr errResp \<Rightarrow> c\<lparr>stream := snd (Stream_Write (stream c) errResp)\<rparr>))
               else c
           | (resp, None) \<Rightarrow>
               (case resp of
                  None \<Rightarrow> c
                | Some r \<Rightarrow> c\<lparr>stream := snd (Stream_Write (stream c) r)\<rparr>)))"

text \<open>
  \<open>Call\<close> up to its \<open>select\<close>: mint the id, build the request, register the pending
  slot under the id's string, write the request; a failed write removes the slot.  The
  result is the error, or the id and the channel the call goes on to wait on.
\<close>

definition Call_send :: "Conn \<Rightarrow> string \<Rightarrow> any \<Rightarrow> (go_error + ID \<times> nat) \<times> Conn" where
  "Call_send c0 method params =
     (case NextID c0 of
        (i, c) \<Rightarrow>
          (case NewRequest i method params of
             Inl err \<Rightarrow> (Inl err, c)
           | Inr msg \<Rightarrow>
               (let ch = nchans c;
                    c1 = c\<lparr>chans := (chans c)(ch \<mapsto> \<lparr>buf = [], chan_closed = False\<rparr>),
                           nchans := Suc ch,
                           pending := (pending c)(ID_String i \<mapsto> ch)\<rparr>
                in case Stream_Write (stream c1) msg of
                     (Some err, s') \<Rightarrow>
                       (Inl err, c1\<lparr>stream := s', pending := (pending c1)(ID_String i := None)\<rparr>)
                   | (None, s') \<Rightarrow> (Inr (i, ch), c1\<lparr>stream := s'\<rparr>))))"

text \<open>
  The \<open>select\<close> of \<open>Call\<close>.  The environment says which case fires: the context is
  done, with \<open>ctx.Err()\<close>, or the channel delivers.  A receive blocks on an open empty
  channel; on a closed empty one it yields nil, whose dereference panics.
\<close>

datatype select_case = ctx_Done go_error | chan_recv

definition Call_select :: "Conn \<Rightarrow> ID \<Rightarrow> nat \<Rightarrow> select_case \<Rightarrow> ((go_error + string) \<times> Conn) outcome" where
  "Call_select c i ch sel =
     (case sel of
        ctx_Done err \<Rightarrow> returns (Inl err, c\<lparr>pending := (pending c)(ID_String i := None)\<rparr>)
      | chan_recv \<Rightarrow>
          (case chans c ch of
             None \<Rightarrow> blocks
           | Some q \<Rightarrow>
               (case buf q of
                  [] \<Rightarrow> if chan_closed q then panics else blocks
                | resp # rest \<Rightarrow>
                    returns
                      ((case Error resp of Some e \<Rightarrow> Inl (rpcError e) | None \<Rightarrow> Inr (Result resp)),
                       c\<lparr>chans := (chans c)(ch \<mapsto> q\<lparr>buf := rest\<rparr>)\<rparr>))))"

text \<open>
  A whole \<open>Call\<close>.  While the call waits in its \<open>select\<close> the other goroutines of the
  connection (the read loop, handlers, other calls) run: \<open>others\<close> is what they do to
  the connection in the meantime.
\<close>

definition Call :: "Conn \<Rightarrow> string \<Rightarrow> any \<Rightarrow> (Conn \<Rightarrow> Conn) \<Rightarrow> select_case
    \<Rightarrow> ((go_error + string) \<times> Conn) outcome" where
  "Call c method params others sel =
     (case Call_send c method params of
        (Inl err, c1) \<Rightarrow> returns (Inl err, c1)
      | (Inr (i, ch), c1) \<Rightarrow> Call_select (others c1) i ch sel)"

definition Notify :: "Conn \<Rightarrow> string \<Rightarrow> any \<Rightarrow> go_error option \<times> Conn" where
  "Notify c method params =
     (case NewNotification method params of
        Inl err \<Rightarrow> (Some err, c)
      | Inr msg \<Rightarrow>
          (case Stream_Write (stream c) msg of (r, s') \<Rightarrow> (r, c\<lparr>stream := s'\<rparr>)))"

definition Close :: "Conn \<Rightarrow> Conn" where
  "Close c = c\<lparr>closed := True\<rparr>"




text \<open>
  Two notions used to state what reaches the peer: the LSP frame around a message body,
  and whether a byte string occurs inside another.
\<close>

definition frame :: "string \<Rightarrow> string" where
  "frame body = ''Content-Length: '' @ fmt_d (int (length body)) @ CRLF @ CRLF @ body"

fun contains_bytes :: "string \<Rightarrow> string \<Rightarrow> bool" where
  "contains_bytes [] sub = (sub = [])"
| "contains_bytes (c # cs) sub = (strings_HasPrefix (c # cs) sub \<or> contains_bytes cs sub)"

section \<open>The backend pool (internal/subprocess/pool.go)\<close>

text \<open>
  A \<open>context.Context\<close> is the background context or a child made by
  \<open>context.WithCancel\<close> or \<open>context.WithTimeout\<close>; a child carries the name of its
  own cancellation, which tells the contexts the pool makes from those its callers
  made.  A context is done once its own cancellation or that of an ancestor has
  happened (the cancel function was called, or the deadline passed).
\<close>

datatype canceller = by_pool nat | by_caller nat

datatype Context = Background | Child canceller Context

fun ctx_done :: "canceller set \<Rightarrow> Context \<Rightarrow> bool" where
  "ctx_done cancelled Background = False"
| "ctx_done cancelled (Child k parent) = (k \<in> cancelled \<or> ctx_done cancelled parent)"

datatype LSPState =
    LSPStateIdle | LSPStateStarting | LSPStateRunning | LSPStateStopping | LSPStateStopped
  | LSPStateFailed

definition LSPState_String :: "LSPState \<Rightarrow> string" where
  "LSPState_String s =
     (case s of
        LSPStateIdle \<Rightarrow> ''idle''
      | LSPStateStarting \<Rightarrow> ''starting''
      | LSPStateRunning \<Rightarrow> ''running''
      | LSPStateStopping \<Rightarrow> ''stopping''
      | LSPStateStopped \<Rightarrow> ''stopped''
      | LSPStateFailed \<Rightarrow> ''failed'')"

text \<open>
  A \<open>Process\<close> is the handle the executor returns: its number and the bytes its
  standard output will deliver.  The \<open>Executor\<close> is the interface of the pool's
  executor; both are declared outside the files at hand.
\<close>

record Process =
  pid :: nat
  Stdout :: string

record Executor =
  Build :: "string \<Rightarrow> go_error + string"
  Execute :: "string \<Rightarrow> string list \<Rightarrow> go_error + Process"

text \<open>
  An instance.  The fields \<open>Conn\<close>, \<open>Capabilities\<close> and \<open>Error\<close> of the source are
  \<open>inst_Conn\<close>, \<open>inst_Capabilities\<close> and \<open>inst_Error\<close> here; a nil pointer is
  \<open>None\<close>.  \<open>cancel\<close> holds the cancellation that the cancel function of \<open>ctx\<close> brings about.
\<close>

record LSPInstance =
  Name :: string
  Flake :: string
  Args :: "string list"
  State :: LSPState
  Process :: "Process option"
  inst_Conn :: "Conn option"
  inst_Capabilities :: "ServerCapabilities option"
  StartedAt :: nat
  inst_Error :: "go_error option"
  ctx :: "Context option"
  cancel :: "canceller option"

text \<open>
  The pool, with the part of the run-time state its operations act on: which
  cancellations have happened, how many contexts were made, which processes were killed.
\<close>

record Pool =
  executor :: Executor
  instances :: "string \<rightharpoonup> LSPInstance"
  pool_handler :: "Handler option"
  cancelled :: "canceller set"
  nctx :: nat
  killed :: "nat list"

definition NewPool :: "Executor \<Rightarrow> Handler option \<Rightarrow> Pool" where
  "NewPool ex h =
     \<lparr>executor = ex, instances = Map.empty, pool_handler = h, cancelled = {}, nctx = 0, killed = []\<rparr>"

definition Register :: "Pool \<Rightarrow> string \<Rightarrow> string \<Rightarrow> string list \<Rightarrow> Pool" where
  "Register p nm flake args =
     p\<lparr>instances := (instances p)(nm \<mapsto>
         \<lparr>Name = nm, Flake = flake, Args = args, State = LSPStateIdle, Process = None,
          inst_Conn = None, inst_Capabilities = None, StartedAt = 0, inst_Error = None,
          ctx = None, cancel = None\<rparr>)\<rparr>"

text \<open>
  What the outside world answers during one operation: the backend's reply to
  \<open>initialize\<close> as \<open>Conn.Call\<close> returns it, what \<open>json.Unmarshal\<close> makes of the
  result, the result of sending \<open>initialized\<close>, the clock, and whether a stopped
  process exits before the 5 second deadline.
\<close>

record world =
  initialize_reply :: "go_error + string"
  parse_result :: "string \<Rightarrow> go_error + ServerCapabilities"
  initialized_result :: "go_error option"
  now :: nat
  exits_in_time :: bool

definition fail_instance :: "LSPInstance \<Rightarrow> go_error \<Rightarrow> LSPInstance" where
  "fail_instance inst err = inst\<lparr>State := LSPStateFailed, inst_Error := Some err\<rparr>"

definition put :: "Pool \<Rightarrow> string \<Rightarrow> LSPInstance \<Rightarrow> Pool" where
  "put p nm inst = p\<lparr>instances := (instances p)(nm \<mapsto> inst)\<rparr>"

text \<open>
  \<open>GetOrStart\<close>, run under the instance lock.  An instance found \<open>Starting\<close> is polled
  with the lock released: \<open>seen\<close> lists what the instance looks like at each wake-up.
  Returning from the poll on \<open>Failed\<close> unlocks the mutex twice, a fatal error.
\<close>

fun poll :: "LSPInstance list \<Rightarrow> (go_error + LSPInstance) outcome" where
  "poll [] = blocks"
| "poll (inst # later) =
     (if State inst = LSPStateRunning then returns (Inr inst)
      else if State inst = LSPStateFailed then panics
      else poll later)"

definition start :: "Pool \<Rightarrow> Context \<Rightarrow> string \<Rightarrow> LSPInstance \<Rightarrow> any \<Rightarrow> world
    \<Rightarrow> (go_error + LSPInstance) \<times> Pool" where
  "start p0 demander nm inst0 initParams w =
     (let k = by_pool (nctx p0);
          p = p0\<lparr>nctx := Suc (nctx p0)\<rparr>;
          inst = inst0\<lparr>State := LSPStateStarting, ctx := Some (Child k demander), cancel := Some k\<rparr>
      in case Build (executor p) (Flake inst) of
           Inl err \<Rightarrow>
             (Inl (wrap_error (''building '' @ nm) err), put p nm (fail_instance inst err))
         | Inr binPath \<Rightarrow>
             (case Execute (executor p) binPath (Args inst) of
                Inl err \<Rightarrow>
                  (Inl (wrap_error (''executing '' @ nm) err), put p nm (fail_instance inst err))
              | Inr proc \<Rightarrow>
                  (let inst1 = inst\<lparr>Process := Some proc,
                                   inst_Conn := Some (NewConn (Stdout proc) (pool_handler p))\<rparr>
                   in if initParams \<noteq> nil then
                        (case initialize_reply w of
                           Inl err \<Rightarrow>
                             (Inl (wrap_error (''initializing '' @ nm) err),
                              put (p\<lparr>killed := killed p @ [pid proc]\<rparr>) nm (fail_instance inst1 err))
                         | Inr result \<Rightarrow>
                             (case parse_result w result of
                                Inl err \<Rightarrow>
                                  (Inl (wrap_error (''parsing init result from '' @ nm) err),
                                   put (p\<lparr>killed := killed p @ [pid proc]\<rparr>) nm
                                     (fail_instance inst1 err))
                              | Inr caps \<Rightarrow>
                                  (let inst2 = inst1\<lparr>inst_Capabilities := Some caps\<rparr>
                                   in case initialized_result w of
                                        Some err \<Rightarrow>
                                          (Inl (wrap_error (''sending initialized to '' @ nm) err),
                                           put (p\<lparr>killed := killed p @ [pid proc]\<rparr>) nm
                                             (fail_instance inst2 err))
                                      | None \<Rightarrow>
                                          (let inst3 = inst2\<lparr>State := LSPStateRunning,
                                                 StartedAt := now w, inst_Error := None\<rparr>
                                           in (Inr inst3, put p nm inst3)))))
                      else
                        (let inst3 = inst1\<lparr>State := LSPStateRunning, StartedAt := now w,
                               inst_Error := None\<rparr>
                         in (Inr inst3, put p nm inst3)))))"

definition GetOrStart :: "Pool \<Rightarrow> Context \<Rightarrow> string \<Rightarrow> any \<Rightarrow> LSPInstance list \<Rightarrow> world
    \<Rightarrow> ((go_error + LSPInstance) \<times> Pool) outcome" where
  "GetOrStart p demander nm initParams seen w =
     (case instances p nm of
        None \<Rightarrow> returns (Inl (errorString (''unknown LSP: '' @ nm)), p)
      | Some inst \<Rightarrow>
          if State inst = LSPStateRunning then returns (Inr inst, p)
          else if State inst = LSPStateStarting then
            (case poll seen of
               blocks \<Rightarrow> blocks
             | panics \<Rightarrow> panics
             | returns r \<Rightarrow> returns (r, p))
          else returns (start p demander nm inst initParams w))"

text \<open>
  The goroutine that \<open>GetOrStart\<close> leaves behind: when \<open>Conn.Run\<close> ends with an error
  it takes the lock and marks the instance failed.
\<close>

definition run_failed :: "Pool \<Rightarrow> string \<Rightarrow> go_error \<Rightarrow> Pool" where
  "run_failed p nm err =
     (case instances p nm of
        None \<Rightarrow> p
      | Some inst \<Rightarrow> put p nm (fail_instance inst err))"

text \<open>
  \<open>Stop\<close>.  The shutdown call, the exit notification and \<open>Close\<close> act on a connection
  that is dropped at the end; their results are ignored by the source.
\<close>

definition Stop :: "Pool \<Rightarrow> string \<Rightarrow> world \<Rightarrow> go_error option \<times> Pool" where
  "Stop p0 nm w =
     (case instances p0 nm of
        None \<Rightarrow> (Some (errorString (''unknown LSP: '' @ nm)), p0)
      | Some inst \<Rightarrow>
          if State inst \<noteq> LSPStateRunning then (None, p0)
          else
            (let deadline = by_pool (nctx p0);
                 p1 = p0\<lparr>nctx := Suc (nctx p0)\<rparr>;
                 p2 = (case cancel inst of
                         None \<Rightarrow> p1
                       | Some k \<Rightarrow> p1\<lparr>cancelled := insert k (cancelled p1)\<rparr>);
                 p3 = (case Process inst of
                         None \<Rightarrow> p2
                       | Some proc \<Rightarrow>
                           if exits_in_time w then p2 else p2\<lparr>killed := killed p2 @ [pid proc]\<rparr>);
                 inst' = inst\<lparr>State := LSPStateStopped, Process := None, inst_Conn := None,
                           inst_Capabilities := None\<rparr>;
                 p4 = put p3 nm inst'
             in (None, p4\<lparr>cancelled := insert deadline (cancelled p4)\<rparr>)))"

text \<open>The operations on a pool, and a run of them from the empty pool.\<close>

datatype pool_op =
    OpRegister string string "string list"
  | OpGetOrStart Context string any "LSPInstance list" world
  | OpStop string world
  | OpRunFailed string go_error

definition apply_op :: "Pool \<Rightarrow> pool_op \<Rightarrow> Pool" where
  "apply_op p op =
     (case op of
        OpRegister nm flake args \<Rightarrow> Register p nm flake args
      | OpGetOrStart demander nm initParams seen w \<Rightarrow>
          (case GetOrStart p demander nm initParams seen w of
             returns (r, p') \<Rightarrow> p'
           | _ \<Rightarrow> p)
      | OpStop nm w \<Rightarrow> snd (Stop p nm w)
      | OpRunFailed nm err \<Rightarrow> run_failed p nm err)"

definition run_ops :: "Executor \<Rightarrow> Handler option \<Rightarrow> pool_op list \<Rightarrow> Pool" where
  "run_ops ex h ops = foldl apply_op (NewPool ex h) ops"



section \<open>Matching: the first accepting matcher wins\<close>

lemma any_glob_list_ex:
  "any_glob gs f p = list_ex (\<lambda>g. g f \<or> g p) gs"
  by (induction gs) auto

lemma Matches_accepts: "Matches ToLower m p e l = accepts ToLower m p e l"
  by (auto simp: Matches_def accepts_def MatchesLanguageID_def MatchesExtension_def
      MatchesPattern_def any_glob_list_ex normalize_ext_def strings_HasPrefix_def Let_def)

lemma Match_loop_find:
  "Match_loop ToLower nms p e l =
     (case find (\<lambda>nm. accepts ToLower (matcher nm) p e l) nms of None \<Rightarrow> [] | Some nm \<Rightarrow> name nm)"
  by (induction nms) (auto simp: Matches_accepts)

text \<open>
  C4.  Whatever function \<open>strings.ToLower\<close> is: \<open>MatcherSet.Match\<close> returns the name of
  the first matcher, in the order of the \<open>Add\<close> calls, that accepts the path, extension
  and language id, and the empty string when none accepts.  A matcher accepts exactly
  when the language id is non-empty and its lowercase form is in the language-id set, or
  the extension is non-empty and its lowercased, dot-prefixed form is in the extension
  set, or the path is non-empty and some glob matches its base name or the path itself.
  A successful \<open>Add\<close> appends to the end of the sequence.  A matcher whose three
  parts are empty accepts nothing.
\<close>

theorem MatcherSet_Match_first_accepting:
  "Match ToLower ms p e l =
     (case find (\<lambda>nm. accepts ToLower (matcher nm) p e l) (matchers ms) of
        None \<Rightarrow> [] | Some nm \<Rightarrow> name nm)
   \<and> Matches ToLower m p e l = accepts ToLower m p e l
   \<and> (Add compile ToLower ms n exts pats langs = (None, ms') \<longrightarrow>
        (\<exists>m'. matchers ms' = matchers ms @ [\<lparr>name = n, matcher = m'\<rparr>]))
   \<and> (extensions m = {} \<and> patterns m = [] \<and> languageIDs m = {} \<longrightarrow> \<not> Matches ToLower m p e l)"
proof (intro conjI impI)
  show "Match ToLower ms p e l =
     (case find (\<lambda>nm. accepts ToLower (matcher nm) p e l) (matchers ms) of
        None \<Rightarrow> [] | Some nm \<Rightarrow> name nm)"
    by (simp add: Match_def Match_loop_find)
  show "Matches ToLower m p e l = accepts ToLower m p e l"
    by (rule Matches_accepts)
  show "\<exists>m'. matchers ms' = matchers ms @ [\<lparr>name = n, matcher = m'\<rparr>]"
    if "Add compile ToLower ms n exts pats langs = (None, ms')"
    using that by (auto simp: Add_def split: sum.splits)
  show "\<not> Matches ToLower m p e l"
    if "extensions m = {} \<and> patterns m = [] \<and> languageIDs m = {}"
    using that by (simp add: Matches_accepts accepts_def)
qed

theorem MatcherSet_Match_first_accepting_witness:
  "Add (\<lambda>p. Inr (\<lambda>s. s = p)) ascii_ToLower NewMatcherSet ''gopls'' [''go''] [] [''Go'']
     = (None, \<lparr>matchers = [\<lparr>name = ''gopls'',
          matcher = \<lparr>extensions = {''.go''}, patterns = [], languageIDs = {''go''}\<rparr>\<rparr>]\<rparr>)
   \<and> (\<exists>m'. matchers \<lparr>matchers = [\<lparr>name = ''gopls'',
          matcher = \<lparr>extensions = {''.go''}, patterns = [], languageIDs = {''go''}\<rparr>\<rparr>]\<rparr>
        = matchers NewMatcherSet @ [\<lparr>name = ''gopls'', matcher = m'\<rparr>])
   \<and> Match ascii_ToLower \<lparr>matchers = [
        \<lparr>name = ''gopls'', matcher = \<lparr>extensions = {''.go''}, patterns = [], languageIDs = {''go''}\<rparr>\<rparr>,
        \<lparr>name = ''nil'', matcher = \<lparr>extensions = {''.nix''}, patterns = [\<lambda>s. s = ''flake.lock''],
           languageIDs = {}\<rparr>\<rparr>,
        \<lparr>name = ''late'', matcher = \<lparr>extensions = {''.go'', ''.nix''}, patterns = [],
           languageIDs = {}\<rparr>\<rparr>]\<rparr>
        ''/src/flake.lock'' [] [] = ''nil''
   \<and> Match ascii_ToLower \<lparr>matchers = [
        \<lparr>name = ''gopls'', matcher = \<lparr>extensions = {''.go''}, patterns = [], languageIDs = {''go''}\<rparr>\<rparr>,
        \<lparr>name = ''nil'', matcher = \<lparr>extensions = {''.nix''}, patterns = [\<lambda>s. s = ''flake.lock''],
           languageIDs = {}\<rparr>\<rparr>,
        \<lparr>name = ''late'', matcher = \<lparr>extensions = {''.go'', ''.nix''}, patterns = [],
           languageIDs = {}\<rparr>\<rparr>]\<rparr>
        ''/src/main.GO'' ''GO'' [] = ''gopls''
   \<and> \<not> Matches ascii_ToLower \<lparr>extensions = {}, patterns = [], languageIDs = {}\<rparr>
         ''/src/a.go'' ''.go'' ''go''"
proof -
  let ?ms = "\<lparr>matchers = [
        \<lparr>name = ''gopls'', matcher = \<lparr>extensions = {''.go''}, patterns = [], languageIDs = {''go''}\<rparr>\<rparr>,
        \<lparr>name = ''nil'', matcher = \<lparr>extensions = {''.nix''}, patterns = [\<lambda>s. s = ''flake.lock''],
           languageIDs = {}\<rparr>\<rparr>,
        \<lparr>name = ''late'', matcher = \<lparr>extensions = {''.go'', ''.nix''}, patterns = [],
           languageIDs = {}\<rparr>\<rparr>]\<rparr>"
  let ?none = "\<lparr>extensions = {}, patterns = [], languageIDs = {}\<rparr>"
  let ?first = "\<lparr>matchers = [\<lparr>name = ''gopls'',
          matcher = \<lparr>extensions = {''.go''}, patterns = [], languageIDs = {''go''}\<rparr>\<rparr>]\<rparr>"
  have add: "Add (\<lambda>p. Inr (\<lambda>s. s = p)) ascii_ToLower NewMatcherSet ''gopls'' [''go''] [] [''Go'']
      = (None, ?first)"
    by (simp add: Add_def New_def NewMatcherSet_def normalize_ext_def ascii_ToLower_def
        lower_char_def strings_HasPrefix_def)
  have "\<exists>m'. matchers ?first = matchers NewMatcherSet @ [\<lparr>name = ''gopls'', matcher = m'\<rparr>]"
    using MatcherSet_Match_first_accepting [where compile = "\<lambda>p. Inr (\<lambda>s. s = p)"
        and ToLower = ascii_ToLower
        and ms = NewMatcherSet and n = "''gopls''" and exts = "[''go'']" and pats = "[]"
        and langs = "[''Go'']" and ms' = ?first] add
    by blast
  moreover have "Match ascii_ToLower ?ms ''/src/flake.lock'' [] [] = ''nil''"
    using MatcherSet_Match_first_accepting [where ms = ?ms and p = "''/src/flake.lock''"
        and e = "[]" and l = "[]" and ToLower = ascii_ToLower]
    by (simp add: accepts_def filepath_Base_def last_element_def strip_trailing_slashes_def)
  moreover have "Match ascii_ToLower ?ms ''/src/main.GO'' ''GO'' [] = ''gopls''"
    using MatcherSet_Match_first_accepting [where ms = ?ms and p = "''/src/main.GO''"
        and e = "''GO''" and l = "[]" and ToLower = ascii_ToLower]
    by (simp add: accepts_def ascii_ToLower_def lower_char_def)
  moreover have "\<not> Matches ascii_ToLower ?none ''/src/a.go'' ''.go'' ''go''"
    using MatcherSet_Match_first_accepting [where m = ?none and p = "''/src/a.go''"
        and e = "''.go''" and l = "''go''" and ms = ?ms and ToLower = ascii_ToLower]
    by (simp add: accepts_def)
  ultimately show ?thesis using add by simp
qed

section \<open>Capabilities: the default set\<close>

lemma collect_caps_all_fail:
  "\<forall>nm \<in> set names. isl (LoadCache nm) \<Longrightarrow> collect_caps LoadCache names caps = caps"
  by (induction names arbitrary: caps) (auto split: sum.splits)

text \<open>
  C8.  When the list of names is empty, or the cache of no named backend can be loaded,
  \<open>AggregateCapabilities\<close> returns the default capability set: full text document
  sync (1), hover, completion triggered by \<open>.\<close>, and the definition, type-definition,
  implementation, references, document-symbol, code-action, formatting,
  range-formatting, rename, folding-range, selection-range and workspace-symbol
  providers.
\<close>

theorem AggregateCapabilities_default:
  assumes "names = [] \<or> (\<forall>nm \<in> set names. isl (LoadCache nm))"
  shows "AggregateCapabilities LoadCache MergeCapabilities names =
     \<lparr>TextDocumentSync = 1,
      HoverProvider = True,
      CompletionProvider = Some \<lparr>TriggerCharacters = [''.'']\<rparr>,
      DefinitionProvider = True,
      TypeDefinitionProvider = True,
      ImplementationProvider = True,
      ReferencesProvider = True,
      DocumentSymbolProvider = True,
      CodeActionProvider = True,
      DocumentFormattingProvider = True,
      DocumentRangeFormattingProvider = True,
      RenameProvider = True,
      FoldingRangeProvider = True,
      SelectionRangeProvider = True,
      WorkspaceSymbolProvider = True\<rparr>"
proof -
  from assms have "\<forall>nm \<in> set names. isl (LoadCache nm)" by auto
  then have "collect_caps LoadCache names [] = []"
    by (rule collect_caps_all_fail)
  then show ?thesis
    by (simp add: AggregateCapabilities_def defaultCapabilities_def)
qed

theorem AggregateCapabilities_default_witness:
  "AggregateCapabilities (\<lambda>n. Inl ''no cache'') hd [''gopls'', ''nil''] =
     \<lparr>TextDocumentSync = 1,
      HoverProvider = True,
      CompletionProvider = Some \<lparr>TriggerCharacters = [''.'']\<rparr>,
      DefinitionProvider = True,
      TypeDefinitionProvider = True,
      ImplementationProvider = True,
      ReferencesProvider = True,
      DocumentSymbolProvider = True,
      CodeActionProvider = True,
      DocumentFormattingProvider = True,
      DocumentRangeFormattingProvider = True,
      RenameProvider = True,
      FoldingRangeProvider = True,
      SelectionRangeProvider = True,
      WorkspaceSymbolProvider = True\<rparr>"
  using AggregateCapabilities_default [of "[''gopls'', ''nil'']" "\<lambda>n. Inl ''no cache''" hd]
  by simp

section \<open>The session: responses are matched by the id's string\<close>

lemma ID_String_7: "ID_String (NewNumberID 7) = ''7''"
  by code_simp






lemma Stream_Write_ok:
  "json_Marshal msg = Inr body \<Longrightarrow> werr s = None \<Longrightarrow>
   Stream_Write s msg = (None, s\<lparr>writer := writer s @ frame body\<rparr>)"
  by (simp add: Stream_Write_def frame_def)

lemma Stream_Write_None:
  "Stream_Write s msg = (None, s') \<Longrightarrow>
   \<exists>body. json_Marshal msg = Inr body \<and> s' = s\<lparr>writer := writer s @ frame body\<rparr>"
  by (auto simp: Stream_Write_def frame_def Let_def split: sum.splits option.splits)

text \<open>
  C9.  \<open>ID.String\<close> is not injective: the number id 7 and the string id \<open>"7"\<close> are
  different ids with the same string \<open>7\<close>.  The pending map is keyed by that string,
  so when a call has sent its request under the number id 7, a response that carries the
  string id \<open>"7"\<close> is delivered on that call's channel, and the call returns it.
\<close>

theorem ID_String_not_injective:
  "NewNumberID 7 \<noteq> NewStringID ''7''
   \<and> ID_String (NewNumberID 7) = ''7'' \<and> ID_String (NewStringID ''7'') = ''7''
   \<and> (nextID c = 6 \<and> Call_send c meth params = (Inr (i, ch), c1)
        \<and> ID resp = Some (NewStringID ''7'') \<longrightarrow>
        i = NewNumberID 7 \<and> pending c1 ''7'' = Some ch
        \<and> (\<exists>c2. handleResponse c1 resp = returns c2
              \<and> chans c2 ch = Some \<lparr>buf = [resp], chan_closed = True\<rparr>
              \<and> pending c2 ''7'' = None
              \<and> (\<exists>c3. Call_select c2 i ch chan_recv =
                    returns ((case Error resp of Some e \<Rightarrow> Inl (rpcError e) | None \<Rightarrow> Inr (Result resp)),
                             c3))))"
proof (intro conjI impI)
  show "NewNumberID 7 \<noteq> NewStringID ''7''"
    by (simp add: NewNumberID_def NewStringID_def)
  show "ID_String (NewNumberID 7) = ''7''" by (rule ID_String_7)
  show s7: "ID_String (NewStringID ''7'') = ''7''"
    by (simp add: ID_String_def NewStringID_def)
  assume h: "nextID c = 6 \<and> Call_send c meth params = (Inr (i, ch), c1)
        \<and> ID resp = Some (NewStringID ''7'')"
  then have i: "i = NewNumberID 7"
    by (auto simp: Call_send_def NextID_def Let_def split: sum.splits prod.splits option.splits)
  from h have p: "pending c1 ''7'' = Some ch"
    by (auto simp: Call_send_def NextID_def Let_def ID_String_7
        split: sum.splits prod.splits option.splits)
  from h have q: "chans c1 ch = Some \<lparr>buf = [], chan_closed = False\<rparr>"
    by (auto simp: Call_send_def NextID_def Let_def split: sum.splits prod.splits option.splits)
  show "i = NewNumberID 7" by (rule i)
  show "pending c1 ''7'' = Some ch" by (rule p)
  show "\<exists>c2. handleResponse c1 resp = returns c2
              \<and> chans c2 ch = Some \<lparr>buf = [resp], chan_closed = True\<rparr>
              \<and> pending c2 ''7'' = None
              \<and> (\<exists>c3. Call_select c2 i ch chan_recv =
                    returns ((case Error resp of Some e \<Rightarrow> Inl (rpcError e) | None \<Rightarrow> Inr (Result resp)),
                             c3))"
    using h p q
    by (simp add: handleResponse_def s7 chan_send_close_def Call_select_def)
qed

theorem ID_String_not_injective_witness:
  "nextID ((NewConn [] None)\<lparr>nextID := 6\<rparr>) = 6
   \<and> fst (Call_send ((NewConn [] None)\<lparr>nextID := 6\<rparr>) ''m'' nil) = Inr (NewNumberID 7, 0)
   \<and> (\<exists>c2 c3.
        handleResponse (snd (Call_send ((NewConn [] None)\<lparr>nextID := 6\<rparr>) ''m'' nil))
          \<lparr>JSONRPC = ''2.0'', ID = Some (NewStringID ''7''), Method = [], Params = [],
           Result = ''true'', Error = None\<rparr> = returns c2
        \<and> Call_select c2 (NewNumberID 7) 0 chan_recv = returns (Inr ''true'', c3))"
proof -
  let ?c = "(NewConn [] None)\<lparr>nextID := 6\<rparr>"
  let ?resp = "\<lparr>JSONRPC = ''2.0'', ID = Some (NewStringID ''7''), Method = [], Params = [],
           Result = ''true'', Error = None\<rparr>"
  have f: "fst (Call_send ?c ''m'' nil) = Inr (NewNumberID 7, 0)"
    by code_simp
  then have s: "Call_send ?c ''m'' nil = (Inr (NewNumberID 7, 0), snd (Call_send ?c ''m'' nil))"
    by (simp add: prod_eq_iff)
  have n: "nextID ?c = 6" by simp
  from ID_String_not_injective [where c = ?c and meth = "''m''" and params = nil
      and i = "NewNumberID 7" and ch = 0 and ?c1.0 = "snd (Call_send ?c ''m'' nil)" and resp = ?resp]
    n s
  have "\<exists>c2 c3. handleResponse (snd (Call_send ?c ''m'' nil)) ?resp = returns c2
        \<and> Call_select c2 (NewNumberID 7) 0 chan_recv = returns (Inr ''true'', c3)"
    by auto
  with n f show ?thesis by blast
qed

section \<open>The session: a handler that fails\<close>

lemma json_Marshal_error_response:
  "json_Marshal \<lparr>JSONRPC = v, ID = Some i, Method = [], Params = [], Result = [],
      Error = Some \<lparr>Code = cd, Message = ms, Data = []\<rparr>\<rparr> =
   Inr (''{'' @ appendString ''jsonrpc'' @ '':'' @ appendString v
        @ '','' @ appendString ''id'' @ '':'' @ ID_MarshalJSON i
        @ '','' @ appendString ''error'' @ '':''
        @ ''{'' @ appendString ''code'' @ '':'' @ fmt_d (sint cd)
        @ '','' @ appendString ''message'' @ '':'' @ appendString ms @ ''}'' @ ''}'')"
  by (simp add: json_Marshal_def raw_field_def marshal_Error_def)

lemma handleMessage_error_request:
  assumes "handler c = Some h" and "h msg = (resp, Some err)" and "ID msg = Some i"
    and "Method msg \<noteq> []"
  shows "handleMessage c msg =
    c\<lparr>stream := snd (Stream_Write (stream c)
         \<lparr>JSONRPC = ''2.0'', ID = Some i, Method = [], Params = [], Result = [],
          Error = Some \<lparr>Code = - 32603, Message = error_text err, Data = []\<rparr>\<rparr>)\<rparr>"
  using assms
  by (simp add: handleMessage_def IsRequest_def NewErrorResponse_def marshal_any_def Version_def
      InternalError_def)

text \<open>
  C10.  With a handler installed: when the handler returns an error for a request (id
  and method present), \<open>handleMessage\<close> hands \<open>Stream.Write\<close> an error response with
  the request's id, code \<open>InternalError\<close> (-32603) and the error's text as message;
  the response always marshals, and on a working writer its frame is appended to the
  bytes sent to the peer.  When the handler returns an error for a message without id,
  and when it returns neither error nor message, the connection is left as it was:
  nothing is written.
\<close>

theorem handleMessage_handler_error:
  assumes "handler c = Some h"
  shows "(h msg = (resp, Some err) \<and> IsRequest msg \<longrightarrow>
           (\<exists>i errResp. ID msg = Some i
              \<and> errResp = \<lparr>JSONRPC = ''2.0'', ID = Some i, Method = [], Params = [], Result = [],
                   Error = Some \<lparr>Code = - 32603, Message = error_text err, Data = []\<rparr>\<rparr>
              \<and> handleMessage c msg = c\<lparr>stream := snd (Stream_Write (stream c) errResp)\<rparr>
              \<and> (\<exists>body. json_Marshal errResp = Inr body
                    \<and> (werr (stream c) = None \<longrightarrow>
                         writer (stream (handleMessage c msg)) = writer (stream c) @ frame body))))
    \<and> (h msg = (resp, Some err) \<and> ID msg = None \<longrightarrow> handleMessage c msg = c)
    \<and> (h msg = (None, None) \<longrightarrow> handleMessage c msg = c)"
proof (intro conjI impI)
  assume a: "h msg = (resp, Some err) \<and> IsRequest msg"
  then obtain i where i: "ID msg = Some i" and m: "Method msg \<noteq> []"
    by (auto simp: IsRequest_def)
  define errResp where "errResp = \<lparr>JSONRPC = ''2.0'', ID = Some i, Method = [], Params = [],
    Result = [], Error = Some \<lparr>Code = - 32603, Message = error_text err, Data = []\<rparr>\<rparr>"
  define body where "body = ''{'' @ appendString ''jsonrpc'' @ '':'' @ appendString ''2.0''
        @ '','' @ appendString ''id'' @ '':'' @ ID_MarshalJSON i
        @ '','' @ appendString ''error'' @ '':''
        @ ''{'' @ appendString ''code'' @ '':'' @ fmt_d (sint (- 32603 :: int64))
        @ '','' @ appendString ''message'' @ '':'' @ appendString (error_text err) @ ''}'' @ ''}''"
  have hm: "handleMessage c msg = c\<lparr>stream := snd (Stream_Write (stream c) errResp)\<rparr>"
    unfolding errResp_def
    using handleMessage_error_request [of c h msg resp err i] assms a i m by simp
  have b: "json_Marshal errResp = Inr body"
    unfolding errResp_def body_def by (rule json_Marshal_error_response)
  have w: "werr (stream c) = None \<longrightarrow>
          writer (stream (handleMessage c msg)) = writer (stream c) @ frame body"
    using Stream_Write_ok [OF b] by (simp add: hm)
  show "\<exists>i errResp. ID msg = Some i
              \<and> errResp = \<lparr>JSONRPC = ''2.0'', ID = Some i, Method = [], Params = [], Result = [],
                   Error = Some \<lparr>Code = - 32603, Message = error_text err, Data = []\<rparr>\<rparr>
              \<and> handleMessage c msg = c\<lparr>stream := snd (Stream_Write (stream c) errResp)\<rparr>
              \<and> (\<exists>body. json_Marshal errResp = Inr body
                    \<and> (werr (stream c) = None \<longrightarrow>
                         writer (stream (handleMessage c msg)) = writer (stream c) @ frame body))"
  proof (intro exI conjI)
    show "ID msg = Some i" by (rule i)
    show "errResp = \<lparr>JSONRPC = ''2.0'', ID = Some i, Method = [], Params = [], Result = [],
                   Error = Some \<lparr>Code = - 32603, Message = error_text err, Data = []\<rparr>\<rparr>"
      by (rule errResp_def)
    show "handleMessage c msg = c\<lparr>stream := snd (Stream_Write (stream c) errResp)\<rparr>" by (rule hm)
    show "json_Marshal errResp = Inr body" by (rule b)
    show "werr (stream c) = None \<longrightarrow>
          writer (stream (handleMessage c msg)) = writer (stream c) @ frame body" by (rule w)
  qed
next
  assume "h msg = (resp, Some err) \<and> ID msg = None"
  then show "handleMessage c msg = c"
    using assms by (simp add: handleMessage_def IsRequest_def)
next
  assume "h msg = (None, None)"
  then show "handleMessage c msg = c"
    using assms by (simp add: handleMessage_def)
qed

theorem handleMessage_handler_error_witness:
  "writer (stream (handleMessage (NewConn [] (Some (\<lambda>m. (None, Some (errorString ''boom'')))))
      \<lparr>JSONRPC = ''2.0'', ID = Some (NewNumberID 3), Method = ''x'', Params = [], Result = [],
       Error = None\<rparr>))
     = frame (''{'' @ [CHR 0x22] @ ''jsonrpc'' @ [CHR 0x22] @ '':'' @ [CHR 0x22] @ ''2.0'' @ [CHR 0x22]
        @ '','' @ [CHR 0x22] @ ''id'' @ [CHR 0x22] @ '':3,'' @ [CHR 0x22] @ ''error'' @ [CHR 0x22]
        @ '':{'' @ [CHR 0x22] @ ''code'' @ [CHR 0x22] @ '':-32603,'' @ [CHR 0x22] @ ''message''
        @ [CHR 0x22] @ '':'' @ [CHR 0x22] @ ''boom'' @ [CHR 0x22] @ ''}}'')
   \<and> handleMessage (NewConn [] (Some (\<lambda>m. (None, Some (errorString ''boom'')))))
        \<lparr>JSONRPC = ''2.0'', ID = None, Method = ''x'', Params = [], Result = [], Error = None\<rparr>
     = NewConn [] (Some (\<lambda>m. (None, Some (errorString ''boom''))))
   \<and> handleMessage (NewConn [] (Some (\<lambda>m. (None, None))))
        \<lparr>JSONRPC = ''2.0'', ID = Some (NewNumberID 3), Method = ''x'', Params = [], Result = [],
         Error = None\<rparr>
     = NewConn [] (Some (\<lambda>m. (None, None)))"
proof -
  let ?h = "\<lambda>m::Message. (None :: Message option, Some (errorString ''boom''))"
  let ?c = "NewConn [] (Some ?h)"
  let ?req = "\<lparr>JSONRPC = ''2.0'', ID = Some (NewNumberID 3), Method = ''x'', Params = [],
      Result = [], Error = None\<rparr>"
  let ?ntf = "\<lparr>JSONRPC = ''2.0'', ID = None, Method = ''x'', Params = [], Result = [], Error = None\<rparr>"
  let ?body = "''{'' @ [CHR 0x22] @ ''jsonrpc'' @ [CHR 0x22] @ '':'' @ [CHR 0x22] @ ''2.0'' @ [CHR 0x22]
        @ '','' @ [CHR 0x22] @ ''id'' @ [CHR 0x22] @ '':3,'' @ [CHR 0x22] @ ''error'' @ [CHR 0x22]
        @ '':{'' @ [CHR 0x22] @ ''code'' @ [CHR 0x22] @ '':-32603,'' @ [CHR 0x22] @ ''message''
        @ [CHR 0x22] @ '':'' @ [CHR 0x22] @ ''boom'' @ [CHR 0x22] @ ''}}''"
  have jm: "json_Marshal \<lparr>JSONRPC = ''2.0'', ID = Some (NewNumberID 3), Method = [], Params = [],
      Result = [], Error = Some \<lparr>Code = - 32603, Message = error_text (errorString ''boom''),
      Data = []\<rparr>\<rparr> = Inr ?body"
    by code_simp
  have hc: "handler ?c = Some ?h" and wc: "werr (stream ?c) = None" and w0: "writer (stream ?c) = []"
    by (simp_all add: NewConn_def)
  have rq: "?h ?req = (None, Some (errorString ''boom'')) \<and> IsRequest ?req"
    by (simp add: IsRequest_def)
  have "writer (stream (handleMessage ?c ?req)) = frame ?body"
    using handleMessage_handler_error [OF hc, where msg = ?req and resp = None
        and err = "errorString ''boom''"] rq jm wc w0
    by auto
  moreover have "handleMessage ?c ?ntf = ?c"
    using handleMessage_handler_error [OF hc, where msg = ?ntf and resp = None
        and err = "errorString ''boom''"]
    by simp
  moreover have "handleMessage (NewConn [] (Some (\<lambda>m. (None, None)))) ?req
      = NewConn [] (Some (\<lambda>m. (None, None)))"
    using handleMessage_handler_error [where c = "NewConn [] (Some (\<lambda>m. (None, None)))"
        and h = "\<lambda>m. (None, None)" and msg = ?req]
    by (simp add: NewConn_def)
  ultimately show ?thesis by simp
qed

section \<open>The session: a call whose context is cancelled\<close>

text \<open>
  C1, as the code has it.  Once \<open>Call\<close> has registered its pending slot and written
  its request, a cancelled context makes it remove the slot registered for the minted
  id and return \<open>ctx.Err()\<close>.  \<open>Call\<close> writes nothing more: the stream is as the
  other goroutines left it, so no \<open>$/cancelRequest\<close> goes to the peer.
\<close>

theorem Call_cancelled:
  assumes "Call_send c meth params = (Inr (i, ch), c1)"
  shows "i = NewNumberID (nextID c + 1)
    \<and> pending c1 (ID_String i) = Some ch
    \<and> (\<exists>c'. Call c meth params others (ctx_Done err) = returns (Inl err, c')
          \<and> pending c' = (pending (others c1))(ID_String i := None)
          \<and> stream c' = stream (others c1))"
  using assms
  by (auto simp: Call_def Call_select_def Call_send_def NextID_def Let_def
      split: sum.splits prod.splits option.splits)

theorem Call_cancelled_witness:
  "fst (Call_send (NewConn [] None) ''m'' nil) = Inr (NewNumberID 1, 0)
   \<and> (\<exists>c'. Call (NewConn [] None) ''m'' nil (\<lambda>c. c) (ctx_Done (errorString ''context canceled''))
          = returns (Inl (errorString ''context canceled''), c')
        \<and> pending c' (ID_String (NewNumberID 1)) = None
        \<and> stream c' = stream (snd (Call_send (NewConn [] None) ''m'' nil)))"
proof -
  let ?c = "NewConn [] None"
  have f: "fst (Call_send ?c ''m'' nil) = Inr (NewNumberID 1, 0)"
    by code_simp
  then have s: "Call_send ?c ''m'' nil = (Inr (NewNumberID 1, 0), snd (Call_send ?c ''m'' nil))"
    by (simp add: prod_eq_iff)
  from Call_cancelled [OF s, of "\<lambda>c. c" "errorString ''context canceled''"]
  have "\<exists>c'. Call ?c ''m'' nil (\<lambda>c. c) (ctx_Done (errorString ''context canceled''))
          = returns (Inl (errorString ''context canceled''), c')
        \<and> pending c' (ID_String (NewNumberID 1)) = None
        \<and> stream c' = stream (snd (Call_send ?c ''m'' nil))"
    by auto
  with f show ?thesis by blast
qed

text \<open>
  The claim as stated fails: on a fresh connection a cancelled call returns the
  context's error and removes its slot, and the bytes sent to the peer are the frame of
  the request and nothing else.
\<close>

theorem Call_cancelled_sends_no_cancelRequest:
  "(case Call (NewConn [] None) ''m'' nil (\<lambda>c. c) (ctx_Done (errorString ''context canceled'')) of
      returns (r, c') \<Rightarrow>
        r = Inl (errorString ''context canceled'')
        \<and> pending c' ''1'' = None
        \<and> writer (stream c') =
            ''Content-Length: 37'' @ [CHR 0x0D, CHR 0x0A, CHR 0x0D, CHR 0x0A, CHR ''{'', CHR 0x22]
            @ ''jsonrpc'' @ [CHR 0x22, CHR '':'', CHR 0x22] @ ''2.0'' @ [CHR 0x22, CHR '','', CHR 0x22]
            @ ''id'' @ [CHR 0x22] @ '':1,'' @ [CHR 0x22] @ ''method'' @ [CHR 0x22, CHR '':'', CHR 0x22]
            @ ''m'' @ [CHR 0x22, CHR ''}'']
        \<and> \<not> contains_bytes (writer (stream c')) ''$/cancelRequest''
    | _ \<Rightarrow> False)"
  by code_simp

section \<open>The pool: what holds of an instance between operations\<close>
















section \<open>The pool: the context an instance is started under\<close>

lemma start_Inr:
  "start p d nm inst0 ip w = (Inr inst, p') \<Longrightarrow>
   ctx inst = Some (Child (by_pool (nctx p)) d) \<and> cancel inst = Some (by_pool (nctx p))
   \<and> instances p' nm = Some inst \<and> State inst = LSPStateRunning"
  by (auto simp: start_def Let_def put_def split: sum.splits option.splits if_splits)

lemma Stop_cancels:
  "instances p nm = Some inst \<Longrightarrow> State inst = LSPStateRunning \<Longrightarrow> cancel inst = Some k \<Longrightarrow>
   k \<in> cancelled (snd (Stop p nm w))"
  by (simp add: Stop_def Let_def put_def split: option.splits)

text \<open>
  C3, as the code has it.  When \<open>GetOrStart\<close> starts an instance, the instance's
  context is a new child of the demander's context, so it is done exactly when its own
  cancel function has been called or the demander's context is done; \<open>Stop\<close> on the
  started instance calls that cancel function.
\<close>

theorem start_context_child_of_demander:
  assumes "instances p nm = Some inst0"
    and "State inst0 \<noteq> LSPStateRunning" and "State inst0 \<noteq> LSPStateStarting"
    and "GetOrStart p demander nm ip seen w = returns (Inr inst, p')"
  shows "ctx inst = Some (Child (by_pool (nctx p)) demander)
     \<and> cancel inst = Some (by_pool (nctx p))
     \<and> instances p' nm = Some inst \<and> State inst = LSPStateRunning
     \<and> (\<forall>C. ctx_done C (Child (by_pool (nctx p)) demander)
            = (by_pool (nctx p) \<in> C \<or> ctx_done C demander))
     \<and> by_pool (nctx p) \<in> cancelled (snd (Stop p' nm w'))"
proof -
  from assms have s: "start p demander nm inst0 ip w = (Inr inst, p')"
    by (simp add: GetOrStart_def)
  note r = start_Inr [OF s]
  from r have "by_pool (nctx p) \<in> cancelled (snd (Stop p' nm w'))"
    using Stop_cancels by blast
  with r show ?thesis by simp
qed

theorem start_context_child_of_demander_witness:
  "GetOrStart
     (Register (NewPool \<lparr>Build = (\<lambda>flake. Inr ''/nix/store/gopls/bin/gopls''),
         Execute = (\<lambda>bin args. Inr \<lparr>pid = 1, Stdout = []\<rparr>)\<rparr> None) ''gopls'' ''nixpkgs#gopls'' [])
     (Child (by_caller 0) Background) ''gopls'' nil []
     \<lparr>initialize_reply = Inr ''{}'',
      parse_result = (\<lambda>r. Inl (errorString ''unexpected end of JSON input'')),
      initialized_result = None, now = 5, exits_in_time = True\<rparr>
   = returns (Inr \<lparr>Name = ''gopls'', Flake = ''nixpkgs#gopls'', Args = [], State = LSPStateRunning,
        Process = Some \<lparr>pid = 1, Stdout = []\<rparr>, inst_Conn = Some (NewConn [] None),
        inst_Capabilities = None, StartedAt = 5, inst_Error = None,
        ctx = Some (Child (by_pool 0) (Child (by_caller 0) Background)),
        cancel = Some (by_pool 0)\<rparr>,
      snd (start (Register (NewPool \<lparr>Build = (\<lambda>flake. Inr ''/nix/store/gopls/bin/gopls''),
         Execute = (\<lambda>bin args. Inr \<lparr>pid = 1, Stdout = []\<rparr>)\<rparr> None) ''gopls'' ''nixpkgs#gopls'' [])
        (Child (by_caller 0) Background) ''gopls''
        \<lparr>Name = ''gopls'', Flake = ''nixpkgs#gopls'', Args = [], State = LSPStateIdle,
          Process = None, inst_Conn = None, inst_Capabilities = None, StartedAt = 0,
          inst_Error = None, ctx = None, cancel = None\<rparr> nil
        \<lparr>initialize_reply = Inr ''{}'',
         parse_result = (\<lambda>r. Inl (errorString ''unexpected end of JSON input'')),
         initialized_result = None, now = 5, exits_in_time = True\<rparr>))
   \<and> ctx_done {by_caller 0} (Child (by_pool 0) (Child (by_caller 0) Background))
   \<and> by_pool 0 \<in> cancelled (snd (Stop
        (snd (start (Register (NewPool \<lparr>Build = (\<lambda>flake. Inr ''/nix/store/gopls/bin/gopls''),
         Execute = (\<lambda>bin args. Inr \<lparr>pid = 1, Stdout = []\<rparr>)\<rparr> None) ''gopls'' ''nixpkgs#gopls'' [])
        (Child (by_caller 0) Background) ''gopls''
        \<lparr>Name = ''gopls'', Flake = ''nixpkgs#gopls'', Args = [], State = LSPStateIdle,
          Process = None, inst_Conn = None, inst_Capabilities = None, StartedAt = 0,
          inst_Error = None, ctx = None, cancel = None\<rparr> nil
        \<lparr>initialize_reply = Inr ''{}'',
         parse_result = (\<lambda>r. Inl (errorString ''unexpected end of JSON input'')),
         initialized_result = None, now = 5, exits_in_time = True\<rparr>))
        ''gopls''
        \<lparr>initialize_reply = Inr ''{}'',
         parse_result = (\<lambda>r. Inl (errorString ''unexpected end of JSON input'')),
         initialized_result = None, now = 9, exits_in_time = True\<rparr>))"
proof -
  let ?ex = "\<lparr>Build = (\<lambda>flake. Inr ''/nix/store/gopls/bin/gopls''),
         Execute = (\<lambda>bin args. Inr \<lparr>pid = 1, Stdout = []\<rparr>)\<rparr>"
  let ?p = "Register (NewPool ?ex None) ''gopls'' ''nixpkgs#gopls'' []"
  let ?d = "Child (by_caller 0) Background"
  let ?w = "\<lparr>initialize_reply = Inr ''{}'',
      parse_result = (\<lambda>r. Inl (errorString ''unexpected end of JSON input'')),
      initialized_result = None, now = 5, exits_in_time = True\<rparr>"
  let ?w' = "\<lparr>initialize_reply = Inr ''{}'',
      parse_result = (\<lambda>r. Inl (errorString ''unexpected end of JSON input'')),
      initialized_result = None, now = 9, exits_in_time = True\<rparr>"
  let ?idle = "\<lparr>Name = ''gopls'', Flake = ''nixpkgs#gopls'', Args = [], State = LSPStateIdle,
          Process = None, inst_Conn = None, inst_Capabilities = None, StartedAt = 0,
          inst_Error = None, ctx = None, cancel = None\<rparr>"
  let ?run = "\<lparr>Name = ''gopls'', Flake = ''nixpkgs#gopls'', Args = [], State = LSPStateRunning,
        Process = Some \<lparr>pid = 1, Stdout = []\<rparr>, inst_Conn = Some (NewConn [] None),
        inst_Capabilities = None, StartedAt = 5, inst_Error = None,
        ctx = Some (Child (by_pool 0) (Child (by_caller 0) Background)),
        cancel = Some (by_pool 0)\<rparr>"
  have i0: "instances ?p ''gopls'' = Some ?idle"
    by (simp add: Register_def)
  have n: "nctx ?p = 0"
    by (simp add: Register_def NewPool_def)
  have f: "fst (start ?p ?d ''gopls'' ?idle nil ?w) = Inr ?run"
    by (simp add: start_def Let_def put_def Register_def NewPool_def)
  have g: "GetOrStart ?p ?d ''gopls'' nil [] ?w = returns (Inr ?run, snd (start ?p ?d ''gopls'' ?idle nil ?w))"
  proof -
    have "GetOrStart ?p ?d ''gopls'' nil [] ?w = returns (start ?p ?d ''gopls'' ?idle nil ?w)"
      unfolding GetOrStart_def i0 by simp
    also have "start ?p ?d ''gopls'' ?idle nil ?w = (Inr ?run, snd (start ?p ?d ''gopls'' ?idle nil ?w))"
      using f by (metis prod.collapse)
    finally show ?thesis .
  qed
  have s1: "State ?idle \<noteq> LSPStateRunning" and s2: "State ?idle \<noteq> LSPStateStarting"
    by simp_all
  from start_context_child_of_demander [OF i0 s1 s2 g, of ?w', unfolded n]
  have "ctx_done {by_caller 0} (Child (by_pool 0) ?d)
      \<and> by_pool 0 \<in> cancelled (snd (Stop (snd (start ?p ?d ''gopls'' ?idle nil ?w)) ''gopls'' ?w'))"
    by simp
  with g show ?thesis by simp
qed

text \<open>
  The claim as stated fails: once the demander's context is cancelled the instance's
  context is done, although the instance is still \<open>Running\<close> and was never stopped.
\<close>

theorem demander_cancel_ends_start_context:
  "(case instances
      (run_ops
        \<lparr>Build = (\<lambda>flake. Inr ''/nix/store/gopls/bin/gopls''),
         Execute = (\<lambda>bin args. Inr \<lparr>pid = 1, Stdout = []\<rparr>)\<rparr>
        None
        [OpRegister ''gopls'' ''nixpkgs#gopls'' [],
         OpGetOrStart (Child (by_caller 0) Background) ''gopls'' nil []
           \<lparr>initialize_reply = Inr ''{}'',
            parse_result = (\<lambda>r. Inl (errorString ''unexpected end of JSON input'')),
            initialized_result = None, now = 5, exits_in_time = True\<rparr>])
      ''gopls'' of
      None \<Rightarrow> False
    | Some inst \<Rightarrow>
        State inst = LSPStateRunning
        \<and> ctx inst = Some (Child (by_pool 0) (Child (by_caller 0) Background))
        \<and> ctx_done {by_caller 0} (Child (by_pool 0) (Child (by_caller 0) Background))
        \<and> \<not> ctx_done {} (Child (by_pool 0) (Child (by_caller 0) Background)))"
  by (simp add: run_ops_def apply_op_def NewPool_def Register_def GetOrStart_def start_def
      Let_def put_def)

end
